theory Spec2Isabelle
  imports Complex_Main "HOL-Library.Sublist" "HOL-Library.AList"
begin

section \<open>JavaScript values, strings and numbers\<close>

text \<open>
  The request payload of \<^verbatim>\<open>predictionController.js\<close> is a parsed JSON object. Its members
  are modelled as JSON scalars; an absent member (JavaScript \<^verbatim>\<open>undefined\<close>) is \<open>None\<close>.
  A number \<open>JNum x\<close> is a finite double, \<open>x\<close> being its value. A string is a list of
  characters, a character being a UTF-16 code unit below 256 (the Latin-1 range).
  An object is an association list of its own properties in key order.
\<close>

datatype jsvalue = JNull | JBool bool | JNum real | JStr string

type_synonym jsobject = "(string \<times> jsvalue) list"

definition get_prop :: "jsobject \<Rightarrow> string \<Rightarrow> jsvalue option" where
  "get_prop obj k = map_of obj k"

definition own_keys :: "jsobject \<Rightarrow> string list" where
  "own_keys obj = map fst obj"

text \<open>\<^verbatim>\<open>String.prototype.includes\<close> and \<^verbatim>\<open>String.prototype.startsWith\<close>.\<close>

definition includes_str :: "string \<Rightarrow> string \<Rightarrow> bool" where
  "includes_str s sub = sublist sub s"

definition startsWith :: "string \<Rightarrow> string \<Rightarrow> bool" where
  "startsWith s pre = prefix pre s"

text \<open>
  White space as \<^verbatim>\<open>parseInt\<close> skips it: tab, line feed, vertical tab, form feed, carriage
  return, space and the no-break space U+00A0 (the other white space characters of
  JavaScript lie above the Latin-1 range).
\<close>

definition is_ws :: "char \<Rightarrow> bool" where
  "is_ws c =
     (c \<in> set [CHR 0x09, CHR 0x0A, CHR 0x0B, CHR 0x0C, CHR 0x0D, CHR '' '', CHR 0xA0])"

text \<open>Value of a digit in radix 16 (and so in radix 10); \<open>None\<close> for any other character.\<close>

definition hex_val :: "char \<Rightarrow> int option" where
  "hex_val c = map_of
     [(CHR ''0'', 0), (CHR ''1'', 1), (CHR ''2'', 2), (CHR ''3'', 3), (CHR ''4'', 4),
      (CHR ''5'', 5), (CHR ''6'', 6), (CHR ''7'', 7), (CHR ''8'', 8), (CHR ''9'', 9),
      (CHR ''a'', 10), (CHR ''b'', 11), (CHR ''c'', 12), (CHR ''d'', 13), (CHR ''e'', 14),
      (CHR ''f'', 15), (CHR ''A'', 10), (CHR ''B'', 11), (CHR ''C'', 12), (CHR ''D'', 13),
      (CHR ''E'', 14), (CHR ''F'', 15)] c"

definition is_radix_digit :: "int \<Rightarrow> char \<Rightarrow> bool" where
  "is_radix_digit r c = (case hex_val c of None \<Rightarrow> False | Some d \<Rightarrow> d < r)"

definition digits_value :: "int \<Rightarrow> string \<Rightarrow> int" where
  "digits_value r ds = foldl (\<lambda>a c. r * a + (case hex_val c of None \<Rightarrow> 0 | Some d \<Rightarrow> d)) 0 ds"

text \<open>An optional sign in front of a numeral: whether it is negative, and the rest.\<close>

definition split_sign :: "string \<Rightarrow> bool \<times> string" where
  "split_sign s =
     (case s of
        [] \<Rightarrow> (False, [])
      | c # cs \<Rightarrow> if c = CHR ''-'' then (True, cs)
                 else if c = CHR ''+'' then (False, cs) else (False, s))"

text \<open>
  The integer that \<^verbatim>\<open>parseInt(string)\<close> reads, with no radix argument: leading white space
  is skipped, a sign is read, a \<^verbatim>\<open>0x\<close>/\<^verbatim>\<open>0X\<close> prefix selects radix 16, and the longest
  prefix of digits is converted; anything after it is ignored. \<open>None\<close> when there is no
  digit at all.
\<close>

definition parse_integer :: "string \<Rightarrow> int option" where
  "parse_integer s =
     (let (neg, s1) = split_sign (dropWhile is_ws s);
          hex = (prefix ''0x'' s1 \<or> prefix ''0X'' s1);
          r = (if hex then 16 else 10);
          s2 = (if hex then drop 2 s1 else s1);
          ds = takeWhile (is_radix_digit r) s2
      in if ds = [] then None
         else Some ((if neg then - 1 else 1) * digits_value r ds))"

text \<open>
  A number the code computes: a double, which is \<^verbatim>\<open>NaN\<close>, an infinity, or finite with the
  given value. The two zeros are not told apart: nothing here divides by a computed zero or
  prints one.
\<close>

datatype jsnum = NaN | PInf | NInf | Fin real

definition whole :: "real \<Rightarrow> bool" where
  "whole x = (x = of_int \<lfloor>x\<rfloor>)"

text \<open>
  The double nearest to an integer (ties to the even mantissa). Integers up to \<open>2 ^ 53\<close> in
  magnitude are doubles themselves; a larger one keeps its 53 leading bits, rounded, and
  becomes an infinity when that reaches \<open>2 ^ 1024\<close>.
\<close>

function bit_length :: "int \<Rightarrow> nat" where
  "bit_length n = (if n \<le> 0 then 0 else Suc (bit_length (n div 2)))"
  by pat_completeness auto
termination
  by (relation "measure nat") auto

declare bit_length.simps [simp del]

definition num_of_int :: "int \<Rightarrow> jsnum" where
  "num_of_int n =
     (let a = \<bar>n\<bar>
      in if a \<le> 2 ^ 53 then Fin (of_int n)
         else (let e = bit_length a - 53;
                   q = a div 2 ^ e;
                   r = a mod 2 ^ e;
                   h = 2 ^ (e - 1);
                   q' = (if h < r \<or> (r = h \<and> odd q) then q + 1 else q);
                   v = q' * 2 ^ e
               in if 2 ^ 1024 \<le> v then (if 0 < n then PInf else NInf)
                  else Fin (of_int (if 0 < n then v else - v))))"

text \<open>\<^verbatim>\<open>parseInt(string)\<close>: \<^verbatim>\<open>NaN\<close>, or the double nearest to the integer read.\<close>

definition parseInt :: "string \<Rightarrow> jsnum" where
  "parseInt s = (case parse_integer s of None \<Rightarrow> NaN | Some n \<Rightarrow> num_of_int n)"

text \<open>\<^verbatim>\<open>x || d\<close> on numbers: \<open>d\<close> when \<open>x\<close> is \<^verbatim>\<open>NaN\<close> or zero.\<close>

definition js_or :: "jsnum \<Rightarrow> jsnum \<Rightarrow> jsnum" where
  "js_or x d = (if x = NaN \<or> x = Fin 0 then d else x)"

text \<open>
  Arithmetic on doubles. The exact result of an operation on finite operands is rounded to
  a double: a whole number up to \<open>2 ^ 53\<close> in magnitude is kept, a result at or beyond the
  overflow threshold \<open>2 ^ 1024 - 2 ^ 970\<close> becomes an infinity, and any other result is
  rounded by \<open>rd\<close>, the rounding of the machine, which is taken as a parameter.
\<close>

definition round_real :: "(real \<Rightarrow> real) \<Rightarrow> real \<Rightarrow> real" where
  "round_real rd x = (if whole x \<and> \<bar>x\<bar> \<le> 2 ^ 53 then x else rd x)"

definition js_round :: "(real \<Rightarrow> real) \<Rightarrow> real \<Rightarrow> jsnum" where
  "js_round rd x =
     (if whole x \<and> \<bar>x\<bar> \<le> 2 ^ 53 then Fin x
      else if 2 ^ 1024 - 2 ^ 970 \<le> \<bar>x\<bar> then (if 0 < x then PInf else NInf)
      else Fin (rd x))"

fun js_sub :: "(real \<Rightarrow> real) \<Rightarrow> jsnum \<Rightarrow> jsnum \<Rightarrow> jsnum" where
  "js_sub rd (Fin x) (Fin y) = js_round rd (x - y)"
| "js_sub rd NaN b = NaN"
| "js_sub rd a NaN = NaN"
| "js_sub rd PInf PInf = NaN"
| "js_sub rd NInf NInf = NaN"
| "js_sub rd PInf b = PInf"
| "js_sub rd NInf b = NInf"
| "js_sub rd (Fin x) PInf = NInf"
| "js_sub rd (Fin x) NInf = PInf"

fun js_mul :: "(real \<Rightarrow> real) \<Rightarrow> jsnum \<Rightarrow> jsnum \<Rightarrow> jsnum" where
  "js_mul rd (Fin x) (Fin y) = js_round rd (x * y)"
| "js_mul rd NaN b = NaN"
| "js_mul rd a NaN = NaN"
| "js_mul rd PInf PInf = PInf"
| "js_mul rd PInf NInf = NInf"
| "js_mul rd NInf PInf = NInf"
| "js_mul rd NInf NInf = PInf"
| "js_mul rd PInf (Fin y) = (if y = 0 then NaN else if 0 < y then PInf else NInf)"
| "js_mul rd NInf (Fin y) = (if y = 0 then NaN else if 0 < y then NInf else PInf)"
| "js_mul rd (Fin x) PInf = (if x = 0 then NaN else if 0 < x then PInf else NInf)"
| "js_mul rd (Fin x) NInf = (if x = 0 then NaN else if 0 < x then NInf else PInf)"

fun js_div :: "(real \<Rightarrow> real) \<Rightarrow> jsnum \<Rightarrow> jsnum \<Rightarrow> jsnum" where
  "js_div rd (Fin x) (Fin y) =
     (if y = 0 then (if x = 0 then NaN else if 0 < x then PInf else NInf)
      else js_round rd (x / y))"
| "js_div rd NaN b = NaN"
| "js_div rd a NaN = NaN"
| "js_div rd (Fin x) PInf = Fin 0"
| "js_div rd (Fin x) NInf = Fin 0"
| "js_div rd PInf (Fin y) = (if 0 \<le> y then PInf else NInf)"
| "js_div rd NInf (Fin y) = (if 0 \<le> y then NInf else PInf)"
| "js_div rd PInf b = NaN"
| "js_div rd NInf b = NaN"

fun js_ceil :: "jsnum \<Rightarrow> jsnum" where
  "js_ceil (Fin x) = Fin (of_int \<lceil>x\<rceil>)"
| "js_ceil a = a"

text \<open>
  \<^verbatim>\<open>Math.ceil(t / l)\<close>. For a whole \<open>t\<close> from 0 to below \<open>2 ^ 53\<close> and a whole \<open>l\<close> other than
  0, the rounding of the quotient never carries it to or across a whole number (the
  quotient is off a whole number by at least \<open>1 / \<bar>l\<bar>\<close>, and rounding moves it by less), so
  the result is the ceiling of the exact quotient.
\<close>

definition js_ceil_div :: "(real \<Rightarrow> real) \<Rightarrow> jsnum \<Rightarrow> jsnum \<Rightarrow> jsnum" where
  "js_ceil_div rd t l =
     (case (t, l) of
        (Fin x, Fin y) \<Rightarrow>
          if whole x \<and> whole y \<and> 0 \<le> x \<and> x < 2 ^ 53 \<and> y \<noteq> 0
          then Fin (of_int \<lceil>x / y\<rceil>)
          else js_ceil (js_div rd t l)
      | _ \<Rightarrow> js_ceil (js_div rd t l))"

text \<open>
  \<^verbatim>\<open>ToNumber\<close> of a possibly absent member (\<^verbatim>\<open>undefined\<close> gives \<^verbatim>\<open>NaN\<close>); how a string reads as
  a number is left to \<open>sn\<close>, the conversion of the machine, taken as a parameter. \<open>js_gt\<close> is
  the comparison \<^verbatim>\<open>member > c\<close>, and \<open>truthy\<close> is \<^verbatim>\<open>ToBoolean\<close>.
\<close>

definition to_number :: "(string \<Rightarrow> jsnum) \<Rightarrow> jsvalue option \<Rightarrow> jsnum" where
  "to_number sn v =
     (case v of
        None \<Rightarrow> NaN
      | Some JNull \<Rightarrow> Fin 0
      | Some (JBool b) \<Rightarrow> Fin (if b then 1 else 0)
      | Some (JNum x) \<Rightarrow> Fin x
      | Some (JStr s) \<Rightarrow> sn s)"

definition js_gt :: "(string \<Rightarrow> jsnum) \<Rightarrow> jsvalue option \<Rightarrow> real \<Rightarrow> bool" where
  "js_gt sn v c =
     (case to_number sn v of NaN \<Rightarrow> False | PInf \<Rightarrow> True | NInf \<Rightarrow> False | Fin x \<Rightarrow> c < x)"

definition truthy :: "jsvalue option \<Rightarrow> bool" where
  "truthy v =
     (case v of
        None \<Rightarrow> False
      | Some JNull \<Rightarrow> False
      | Some (JBool b) \<Rightarrow> b
      | Some (JNum x) \<Rightarrow> x \<noteq> 0
      | Some (JStr s) \<Rightarrow> s \<noteq> [])"

text \<open>
  Decimal rendering of an integer, as a template literal does for \<^verbatim>\<open>Date.now()\<close> and for an
  array index (integers below \<open>10 ^ 21\<close> in magnitude, as time values are).
\<close>

definition digit_char :: "int \<Rightarrow> char" where
  "digit_char d =
     (if d = 0 then CHR ''0'' else if d = 1 then CHR ''1'' else if d = 2 then CHR ''2''
      else if d = 3 then CHR ''3'' else if d = 4 then CHR ''4'' else if d = 5 then CHR ''5''
      else if d = 6 then CHR ''6'' else if d = 7 then CHR ''7'' else if d = 8 then CHR ''8''
      else CHR ''9'')"

function digits10 :: "int \<Rightarrow> string" where
  "digits10 n =
     (if n < 10 then [digit_char n] else digits10 (n div 10) @ [digit_char (n mod 10)])"
  by pat_completeness auto
termination
  by (relation "measure nat") auto

declare digits10.simps [simp del]

definition show_int :: "int \<Rightarrow> string" where
  "show_int n = (if n < 0 then CHR ''-'' # digits10 (- n) else digits10 n)"

text \<open>\<^verbatim>\<open>String.prototype.toLowerCase\<close> on the Latin-1 range.\<close>

definition lower_char :: "char \<Rightarrow> char" where
  "lower_char c =
     (let n = (of_char c :: nat)
      in if (65 \<le> n \<and> n \<le> 90) \<or> (192 \<le> n \<and> n \<le> 222 \<and> n \<noteq> 215)
         then char_of (n + 32) else c)"

definition toLowerCase :: "string \<Rightarrow> string" where
  "toLowerCase s = map lower_char s"

section \<open>The validation schema\<close>

text \<open>
  \<^verbatim>\<open>predictionValidation\<close> is a Joi object schema. Joi (\<^verbatim>\<open>@hapi/joi\<close>) is a library, so
  its rules are modelled after its documented defaults: keys are checked in the order the
  schema lists them and the first violation ends the check (\<^verbatim>\<open>abortEarly\<close>); a key the
  schema does not list is refused after that; a string that reads as a number or as
  \<^verbatim>\<open>true\<close>/\<^verbatim>\<open>false\<close> is accepted and converted (\<^verbatim>\<open>convert\<close>); a number must be safe (at
  most \<open>2 ^ 53 - 1\<close> in magnitude); an absent optional key takes its default. The message
  of a violation is the quoted key followed by the reason.

  The releases of the library differ in one respect that matters here. Release 15 checks
  the type of a value before the list of allowed values, so that it refuses a value that is
  not a string as such, and the empty string as empty; from release 16 on the list of
  allowed values is checked first.
\<close>

datatype joi_release = Release15 | Release16

datatype joi_type = JoiStringValid "string list" | JoiNumber | JoiBoolean

record joi_key =
  key_name :: string
  key_type :: joi_type
  key_required :: bool
  key_default :: "jsvalue option"

definition predictionValidation :: "joi_key list" where
  "predictionValidation =
     [\<lparr>key_name = ''gender'', key_type = JoiStringValid [''Male'', ''Female''],
       key_required = True, key_default = None\<rparr>,
      \<lparr>key_name = ''age'', key_type = JoiNumber, key_required = True, key_default = None\<rparr>,
      \<lparr>key_name = ''hypertension'', key_type = JoiBoolean, key_required = False,
       key_default = Some (JBool False)\<rparr>,
      \<lparr>key_name = ''heartDisease'', key_type = JoiBoolean, key_required = True,
       key_default = None\<rparr>,
      \<lparr>key_name = ''smokingHistory'',
       key_type = JoiStringValid [''never'', ''former'', ''current''],
       key_required = True, key_default = None\<rparr>,
      \<lparr>key_name = ''bmi'', key_type = JoiNumber, key_required = True, key_default = None\<rparr>,
      \<lparr>key_name = ''hbA1cLevel'', key_type = JoiNumber, key_required = False,
       key_default = None\<rparr>,
      \<lparr>key_name = ''bloodGlucoseLevel'', key_type = JoiNumber, key_required = False,
       key_default = None\<rparr>]"

text \<open>
  What Joi makes of a string where a number is expected: not a numeric string, a numeric
  string it refuses as unsafe (one that does not read back as written), an infinite one, or
  the number it converts to. This reading is Joi's own and is taken as a parameter \<open>cn\<close> of
  the validation.
\<close>

datatype joi_coerced = NotNumeric | NotSafe | Infinite | Converted real

definition quote :: "string \<Rightarrow> string" where
  "quote s = CHR 0x22 # s @ [CHR 0x22]"

fun join_comma :: "string list \<Rightarrow> string" where
  "join_comma [] = []"
| "join_comma [x] = x"
| "join_comma (x # y # ys) = x @ '', '' @ join_comma (y # ys)"

text \<open>
  The reasons a message can give: for a value of the wrong type or outside the allowed
  ones, for an empty string, for an unsafe or an infinite number.
\<close>

definition reason_type :: "joi_type \<Rightarrow> string" where
  "reason_type t =
     (case t of
        JoiStringValid allowed \<Rightarrow> '' must be one of ['' @ join_comma allowed @ '']''
      | JoiNumber \<Rightarrow> '' must be a number''
      | JoiBoolean \<Rightarrow> '' must be a boolean'')"

definition reason_string :: string where
  "reason_string = '' must be a string''"

definition reason_empty :: string where
  "reason_empty = '' is not allowed to be empty''"

definition reason_unsafe :: string where
  "reason_unsafe = '' must be a safe number''"

definition reason_infinity :: string where
  "reason_infinity = '' cannot be infinity''"

definition msg_required :: "string \<Rightarrow> string" where
  "msg_required k = quote k @ '' is required''"

definition msg_unknown :: "string \<Rightarrow> string" where
  "msg_unknown k = quote k @ '' is not allowed''"

definition safe_number :: "real \<Rightarrow> string + jsvalue" where
  "safe_number x = (if 9007199254740991 < \<bar>x\<bar> then Inl reason_unsafe else Inr (JNum x))"

text \<open>A present member against a type: the reason of the violation, or the converted value.\<close>

definition check_value ::
  "joi_release \<Rightarrow> (string \<Rightarrow> joi_coerced) \<Rightarrow> joi_type \<Rightarrow> jsvalue \<Rightarrow> string + jsvalue" where
  "check_value rel cn t v =
     (case t of
        JoiStringValid allowed \<Rightarrow>
          (case v of
             JStr s \<Rightarrow> if s \<in> set allowed then Inr v
                       else if rel = Release15 \<and> s = [] then Inl reason_empty
                       else Inl (reason_type t)
           | _ \<Rightarrow> if rel = Release15 then Inl reason_string else Inl (reason_type t))
      | JoiNumber \<Rightarrow>
          (case v of
             JNum x \<Rightarrow> safe_number x
           | JStr s \<Rightarrow>
               (case cn s of
                  NotNumeric \<Rightarrow> Inl (reason_type t)
                | NotSafe \<Rightarrow> Inl reason_unsafe
                | Infinite \<Rightarrow> Inl reason_infinity
                | Converted x \<Rightarrow> safe_number x)
           | _ \<Rightarrow> Inl (reason_type t))
      | JoiBoolean \<Rightarrow>
          (case v of
             JBool b \<Rightarrow> Inr v
           | JStr s \<Rightarrow> if toLowerCase s = ''true'' then Inr (JBool True)
                       else if toLowerCase s = ''false'' then Inr (JBool False)
                       else Inl (reason_type t)
           | _ \<Rightarrow> Inl (reason_type t)))"

text \<open>
  One key of the schema against the member of that name: the message of the violation, or
  the value the key has after validation (\<open>None\<close>: the key stays absent).
\<close>

definition check_key ::
  "joi_release \<Rightarrow> (string \<Rightarrow> joi_coerced) \<Rightarrow> joi_key \<Rightarrow> jsvalue option
     \<Rightarrow> string + jsvalue option" where
  "check_key rel cn k m =
     (case m of
        None \<Rightarrow> if key_required k then Inl (msg_required (key_name k)) else Inr (key_default k)
      | Some v \<Rightarrow>
          (case check_value rel cn (key_type k) v of
             Inl reason \<Rightarrow> Inl (quote (key_name k) @ reason)
           | Inr v' \<Rightarrow> Inr (Some v')))"

fun validate_keys ::
  "joi_release \<Rightarrow> (string \<Rightarrow> joi_coerced) \<Rightarrow> joi_key list \<Rightarrow> jsobject \<Rightarrow> jsobject
     \<Rightarrow> string + jsobject" where
  "validate_keys rel cn [] raw val = Inr val"
| "validate_keys rel cn (k # ks) raw val =
     (case check_key rel cn k (get_prop raw (key_name k)) of
        Inl msg \<Rightarrow> Inl msg
      | Inr None \<Rightarrow> validate_keys rel cn ks raw val
      | Inr (Some v) \<Rightarrow> validate_keys rel cn ks raw (AList.update (key_name k) v val))"

text \<open>
  \<^verbatim>\<open>schema.validate(payload)\<close>: \<open>Inl\<close> is \<^verbatim>\<open>error.details[0].message\<close>, \<open>Inr\<close> is the
  normalised \<^verbatim>\<open>value\<close> (conversions and defaults applied) when there is no error.
\<close>

definition validate ::
  "joi_release \<Rightarrow> (string \<Rightarrow> joi_coerced) \<Rightarrow> joi_key list \<Rightarrow> jsobject
     \<Rightarrow> string + jsobject" where
  "validate rel cn schema raw =
     (case validate_keys rel cn schema raw raw of
        Inl msg \<Rightarrow> Inl msg
      | Inr val \<Rightarrow>
          (case filter (\<lambda>k. k \<notin> set (map key_name schema)) (own_keys raw) of
             [] \<Rightarrow> Inr val
           | k # _ \<Rightarrow> Inl (msg_unknown k)))"

section \<open>Records, responses and the collaborators\<close>

record recommendations =
  lifestyle :: "string list"
  monitoring :: "string list"
  consultation :: "string list"

text \<open>A prediction result; \<open>factors\<close> is the object \<^verbatim>\<open>details.factors\<close>.\<close>

record prediction_result =
  prediction :: string
  riskScore :: real
  factors :: "(string \<times> string) list"
  recommendations :: "recommendations option"

text \<open>A record of the collection; \<open>createdAt\<close> is a time value in milliseconds.\<close>

record prediction_doc =
  doc_id :: string
  inputData :: jsobject
  result :: prediction_result
  createdAt :: int
  user :: string

record pagination =
  pg_total :: jsnum
  pg_page :: jsnum
  pg_limit :: jsnum
  pg_pages :: jsnum

text \<open>
  The \<^verbatim>\<open>data\<close> member of a response body: the created record (id, inputData, result,
  createdAt), a page of the history, or one prediction.
\<close>

datatype body_data =
  CreatedData string jsobject prediction_result int
| HistoryData "prediction_doc list" pagination
| PredictionData prediction_doc

record response =
  code :: nat
  status :: string
  message :: "string option"
  data :: "body_data option"

text \<open>
  What a handler reads from the request: the payload, the identity the authentication
  layer supplies (\<^verbatim>\<open>request.auth.credentials.id\<close>), \<^verbatim>\<open>request.params.id\<close> and the two
  query parameters, each as the string \<^verbatim>\<open>parseInt\<close> makes of it (\<open>None\<close> when absent).
\<close>

record request =
  payload :: jsobject
  auth_id :: string
  params_id :: string
  query_page :: "string option"
  query_limit :: "string option"

text \<open>
  The environment of one call of a handler: \<open>dateNow k\<close> is what the handler's \<open>k\<close>-th
  reading of the clock returns (\<^verbatim>\<open>Date.now()\<close> or \<^verbatim>\<open>new Date()\<close>, a time value: a whole
  number of milliseconds of magnitude at most \<open>8.64 * 10 ^ 15\<close>, on which the arithmetic
  of dates is exact), \<open>mathRandom k\<close> its \<open>k\<close>-th \<^verbatim>\<open>Math.random()\<close>, a double from 0 up
  to but not including 1, and \<open>newObjectId\<close> the identifier a new document gets. \<open>roundDouble\<close> is the rounding of an exact result to the
  nearest double, and \<open>stringToNumber\<close> the number a string converts to when it is compared
  with a number.
\<close>

record env =
  dateNow :: "nat \<Rightarrow> int"
  mathRandom :: "nat \<Rightarrow> real"
  newObjectId :: string
  roundDouble :: "real \<Rightarrow> real"
  stringToNumber :: "string \<Rightarrow> jsnum"

text \<open>
  \<^verbatim>\<open>DiabetesPredictionService\<close>, the inference collaborator: each call returns or throws
  (\<open>Inl\<close> carries the error).
\<close>

record service =
  makePrediction :: "jsobject \<Rightarrow> string + prediction_result"
  getRecommendations :: "prediction_result \<Rightarrow> string + recommendations"

text \<open>
  The store: the state of \<^verbatim>\<open>mongoose.connection\<close> and the collection behind the
  \<^verbatim>\<open>Prediction\<close> model. \<open>fault\<close>, when set, is the error with which every operation on
  the collection is rejected (a lost connection, a refused write). \<open>unusual\<close> is what the
  store answers to a query whose skip is not a count or whose limit is not a count of at
  least 1, given the skip, the limit and the records the query matches, in order.
\<close>

record database =
  readyState :: nat
  docs :: "prediction_doc list"
  fault :: "string option"
  unusual :: "jsnum \<Rightarrow> jsnum \<Rightarrow> prediction_doc list \<Rightarrow> string + prediction_doc list"

text \<open>
  Modelled from the spec: the \<^verbatim>\<open>Prediction\<close> model (\<^verbatim>\<open>../models/Prediction\<close>) is not part of
  the sources. Following the spec's StoreGateway, a record keeps the owner, the input and the
  result it is created with, and gets its identifier and its \<open>createdAt\<close> at creation;
  \<open>findByOwner\<close>, \<open>findOne\<close> and \<open>deleteOne\<close> are scoped by owner, and \<open>findByOwner\<close> sorts
  by recency, skips and limits as asked. A count is a whole number from 0 to \<open>2 ^ 53\<close>.
\<close>

definition newPrediction :: "env \<Rightarrow> string \<Rightarrow> jsobject \<Rightarrow> prediction_result \<Rightarrow> prediction_doc" where
  "newPrediction e uid inp res =
     \<lparr>doc_id = newObjectId e, inputData = inp, result = res, createdAt = dateNow e 0,
      user = uid\<rparr>"

definition save :: "database \<Rightarrow> prediction_doc \<Rightarrow> string + database" where
  "save db d =
     (case fault db of
        Some err \<Rightarrow> Inl err
      | None \<Rightarrow> Inr (db\<lparr>docs := docs db @ [d]\<rparr>))"

definition owned_by :: "string \<Rightarrow> prediction_doc list \<Rightarrow> prediction_doc list" where
  "owned_by uid ds = filter (\<lambda>d. user d = uid) ds"

definition newest_first :: "prediction_doc list \<Rightarrow> prediction_doc list" where
  "newest_first ds = sort_key (\<lambda>d. - createdAt d) ds"

definition as_count :: "jsnum \<Rightarrow> nat option" where
  "as_count a =
     (case a of
        Fin x \<Rightarrow> if whole x \<and> 0 \<le> x \<and> x \<le> 2 ^ 53 then Some (nat \<lfloor>x\<rfloor>) else None
      | _ \<Rightarrow> None)"

definition find_sort_skip_limit ::
  "database \<Rightarrow> string \<Rightarrow> jsnum \<Rightarrow> jsnum \<Rightarrow> string + prediction_doc list" where
  "find_sort_skip_limit db uid skip lmt =
     (case fault db of
        Some err \<Rightarrow> Inl err
      | None \<Rightarrow>
          (let found = newest_first (owned_by uid (docs db))
           in case (as_count skip, as_count lmt) of
                (Some s, Some l) \<Rightarrow>
                  if 0 < l then Inr (take l (drop s found)) else unusual db skip lmt found
              | _ \<Rightarrow> unusual db skip lmt found))"

definition countDocuments :: "database \<Rightarrow> string \<Rightarrow> string + jsnum" where
  "countDocuments db uid =
     (case fault db of
        Some err \<Rightarrow> Inl err
      | None \<Rightarrow> Inr (num_of_int (int (length (owned_by uid (docs db))))))"

definition matches :: "string \<Rightarrow> string \<Rightarrow> prediction_doc \<Rightarrow> bool" where
  "matches pid uid d = (doc_id d = pid \<and> user d = uid)"

definition findOne :: "database \<Rightarrow> string \<Rightarrow> string \<Rightarrow> string + prediction_doc option" where
  "findOne db pid uid =
     (case fault db of
        Some err \<Rightarrow> Inl err
      | None \<Rightarrow> Inr (find (matches pid uid) (docs db)))"

fun remove_first :: "('a \<Rightarrow> bool) \<Rightarrow> 'a list \<Rightarrow> 'a list" where
  "remove_first P [] = []"
| "remove_first P (x # xs) = (if P x then xs else x # remove_first P xs)"

definition findOneAndDelete ::
  "database \<Rightarrow> string \<Rightarrow> string \<Rightarrow> string + (prediction_doc option \<times> database)" where
  "findOneAndDelete db pid uid =
     (case fault db of
        Some err \<Rightarrow> Inl err
      | None \<Rightarrow>
          Inr (find (matches pid uid) (docs db),
               db\<lparr>docs := remove_first (matches pid uid) (docs db)\<rparr>))"

section \<open>The handlers\<close>

definition error_response :: "nat \<Rightarrow> string \<Rightarrow> response" where
  "error_response c m = \<lparr>code = c, status = ''error'', message = Some m, data = None\<rparr>"

definition optional_hint :: string where
  "optional_hint =
     ''. Anda dapat melanjutkan tanpa mengisi nilai ini, sistem akan memberikan estimasi berdasarkan data lain yang Anda berikan.''"

text \<open>The message of a validation error as \<^verbatim>\<open>createPrediction\<close> sends it.\<close>

definition validation_message :: "string \<Rightarrow> string" where
  "validation_message errorMessage =
     (if includes_str errorMessage ''hbA1cLevel''
         \<or> includes_str errorMessage ''bloodGlucoseLevel''
         \<or> includes_str errorMessage ''hypertension''
      then errorMessage @ optional_hint else errorMessage)"

definition static_recommendations :: recommendations where
  "static_recommendations =
     \<lparr>lifestyle = [''Maintain a balanced diet rich in vegetables and fruits'',
                   ''Regular physical activity (at least 150 minutes per week)''],
      monitoring = [''Regular blood glucose monitoring''],
      consultation = [''Follow up with your primary care physician'']\<rparr>"

text \<open>The object built in the \<^verbatim>\<open>catch (modelError)\<close> block of \<^verbatim>\<open>createPrediction\<close>.\<close>

definition fallback_result :: "env \<Rightarrow> jsobject \<Rightarrow> prediction_result" where
  "fallback_result e inp =
     \<lparr>prediction = (if 0.5 < mathRandom e 0 then ''High Risk'' else ''Low Risk''),
      riskScore = mathRandom e 1,
      factors =
        [(''bloodGlucoseLevel'',
            if js_gt (stringToNumber e) (get_prop inp ''bloodGlucoseLevel'') 140
            then ''High'' else ''Normal''),
         (''hbA1cLevel'',
            if js_gt (stringToNumber e) (get_prop inp ''hbA1cLevel'') 6.5
            then ''Elevated'' else ''Normal''),
         (''bmi'',
            if js_gt (stringToNumber e) (get_prop inp ''bmi'') 25
            then ''Overweight'' else ''Normal''),
         (''hypertension'',
            if truthy (get_prop inp ''hypertension'') then ''Present'' else ''Absent''),
         (''heartDisease'',
            if truthy (get_prop inp ''heartDisease'') then ''Present'' else ''Absent'')],
      recommendations = Some static_recommendations\<rparr>"

text \<open>
  The inner \<^verbatim>\<open>try\<close>/\<^verbatim>\<open>catch\<close> of \<^verbatim>\<open>createPrediction\<close>: the service's result with its
  recommendations attached, or the fallback when either call throws.
\<close>

definition predict :: "service \<Rightarrow> env \<Rightarrow> jsobject \<Rightarrow> prediction_result" where
  "predict svc e inp =
     (case makePrediction svc inp of
        Inl modelError \<Rightarrow> fallback_result e inp
      | Inr r \<Rightarrow>
          (case getRecommendations svc r of
             Inl modelError \<Rightarrow> fallback_result e inp
           | Inr recs \<Rightarrow> r\<lparr>recommendations := Some recs\<rparr>))"

text \<open>
  \<^verbatim>\<open>createPrediction\<close>. The validation library is the parameter \<open>joi\<close>: \<open>joi schema value\<close>
  is \<^verbatim>\<open>schema.validate(value)\<close>, either the message of the first error or the validated
  value, of which the handler keeps nothing: it goes on with \<^verbatim>\<open>request.payload\<close>.
\<close>

definition createPrediction ::
  "(joi_key list \<Rightarrow> jsobject \<Rightarrow> string + jsobject) \<Rightarrow> service \<Rightarrow> env \<Rightarrow> database \<Rightarrow> request
     \<Rightarrow> response \<times> database" where
  "createPrediction joi svc e db req =
     (case joi predictionValidation (payload req) of
        Inl errorMessage \<Rightarrow> (error_response 400 (validation_message errorMessage), db)
      | Inr _ \<Rightarrow>
          (let inp = payload req;
               predictionResult = predict svc e inp
           in if readyState db \<noteq> 1 then
                (\<lparr>code = 201, status = ''success'',
                  message = Some ''Prediction created successfully (MOCK - No DB)'',
                  data = Some (CreatedData (''mock-'' @ show_int (dateNow e 0)) inp
                                 predictionResult (dateNow e 1))\<rparr>, db)
              else
                (let p = newPrediction e (auth_id req) inp predictionResult
                 in case save db p of
                      Inl err \<Rightarrow> (error_response 500 err, db)
                    | Inr db' \<Rightarrow>
                        (\<lparr>code = 201, status = ''success'',
                          message = Some ''Prediction created successfully'',
                          data = Some (CreatedData (doc_id p) (inputData p) (result p)
                                         (createdAt p))\<rparr>, db'))))"

text \<open>\<^verbatim>\<open>parseInt(q) || d\<close> on a query parameter that may be absent.\<close>

definition parseInt_or :: "string option \<Rightarrow> jsnum \<Rightarrow> jsnum" where
  "parseInt_or q d = js_or (case q of None \<Rightarrow> NaN | Some s \<Rightarrow> parseInt s) d"

text \<open>The \<^verbatim>\<open>page\<close>, \<^verbatim>\<open>limit\<close> and \<^verbatim>\<open>skip\<close> of \<^verbatim>\<open>getPredictionHistory\<close>.\<close>

definition page_of :: "request \<Rightarrow> jsnum" where
  "page_of req = parseInt_or (query_page req) (Fin 1)"

definition limit_of :: "request \<Rightarrow> jsnum" where
  "limit_of req = parseInt_or (query_limit req) (Fin 10)"

definition skip_of :: "env \<Rightarrow> request \<Rightarrow> jsnum" where
  "skip_of e req =
     js_mul (roundDouble e) (js_sub (roundDouble e) (page_of req) (Fin 1)) (limit_of req)"

text \<open>\<^verbatim>\<open>c + Math.floor(Math.random() * n)\<close> with the \<open>k\<close>-th random number.\<close>

definition random_from :: "env \<Rightarrow> real \<Rightarrow> nat \<Rightarrow> real \<Rightarrow> real" where
  "random_from e c k n =
     round_real (roundDouble e)
       (c + of_int \<lfloor>round_real (roundDouble e) (mathRandom e k * n)\<rfloor>)"

definition day_ms :: int where
  "day_ms = 24 * 60 * 60 * 1000"

text \<open>
  The \<open>i\<close>-th element of \<^verbatim>\<open>mockPredictions\<close>. Each element reads the clock twice (for its
  id, then for \<open>createdAt\<close>) and draws eight random numbers, in the order of the source.
\<close>

definition mockPredictionAt :: "env \<Rightarrow> string \<Rightarrow> nat \<Rightarrow> prediction_doc" where
  "mockPredictionAt e uid i =
     \<lparr>doc_id = ''mock-'' @ show_int (int i) @ ''-'' @ show_int (dateNow e (2 * i)),
      inputData =
        [(''glucose'', JNum (random_from e 110 (8 * i) 70)),
         (''bloodPressure'', JNum (random_from e 70 (8 * i + 1) 40)),
         (''skinThickness'', JNum (random_from e 20 (8 * i + 2) 15)),
         (''insulin'', JNum (random_from e 50 (8 * i + 3) 100)),
         (''bmi'', JNum (round_real (roundDouble e)
                          (22 + round_real (roundDouble e) (mathRandom e (8 * i + 4) * 10)))),
         (''age'', JNum (random_from e 25 (8 * i + 5) 40))],
      result =
        \<lparr>prediction = (if 0.5 < mathRandom e (8 * i + 6) then ''High Risk'' else ''Low Risk''),
         riskScore = mathRandom e (8 * i + 7),
         factors = [],
         recommendations = None\<rparr>,
      createdAt = dateNow e (2 * i + 1) - int i * day_ms,
      user = uid\<rparr>"

definition getPredictionHistory :: "env \<Rightarrow> database \<Rightarrow> request \<Rightarrow> response \<times> database" where
  "getPredictionHistory e db req =
     (let userId = auth_id req;
          page = page_of req;
          limit = limit_of req;
          skip = skip_of e req
      in if readyState db \<noteq> 1 then
           (let mockPredictions = map (mockPredictionAt e userId) [0..<5]
            in (\<lparr>code = 200, status = ''success'', message = None,
                 data = Some (HistoryData mockPredictions
                          \<lparr>pg_total = Fin (real (length mockPredictions)), pg_page = Fin 1,
                           pg_limit = Fin 10, pg_pages = Fin 1\<rparr>)\<rparr>, db))
         else
           (case find_sort_skip_limit db userId skip limit of
              Inl err \<Rightarrow> (error_response 500 err, db)
            | Inr predictions \<Rightarrow>
                (case countDocuments db userId of
                   Inl err \<Rightarrow> (error_response 500 err, db)
                 | Inr totalCount \<Rightarrow>
                     (\<lparr>code = 200, status = ''success'', message = None,
                       data = Some (HistoryData predictions
                                \<lparr>pg_total = totalCount, pg_page = page, pg_limit = limit,
                                 pg_pages = js_ceil_div (roundDouble e) totalCount limit\<rparr>)\<rparr>,
                      db))))"

definition getPredictionById :: "env \<Rightarrow> database \<Rightarrow> request \<Rightarrow> response \<times> database" where
  "getPredictionById e db req =
     (let predictionId = params_id req;
          userId = auth_id req
      in if readyState db \<noteq> 1 then
           (if \<not> startsWith predictionId ''mock-''
               \<and> predictionId \<noteq> ''60d21b4667d0d8992e610c85''
            then (error_response 404 ''Prediction not found'', db)
            else
              (let mockPrediction =
                     \<lparr>doc_id = predictionId,
                      inputData =
                        [(''glucose'', JNum 140), (''bloodPressure'', JNum 80),
                         (''skinThickness'', JNum 25), (''insulin'', JNum 120),
                         (''bmi'', JNum 24.5), (''age'', JNum 45)],
                      result =
                        \<lparr>prediction = ''High Risk'', riskScore = 0.75,
                         factors = [(''glucose'', ''High''), (''bloodPressure'', ''Normal''),
                                    (''bmi'', ''Normal'')],
                         recommendations = None\<rparr>,
                      createdAt = dateNow e 0,
                      user = userId\<rparr>
               in (\<lparr>code = 200, status = ''success'', message = None,
                    data = Some (PredictionData mockPrediction)\<rparr>, db)))
         else
           (case findOne db predictionId userId of
              Inl err \<Rightarrow> (error_response 500 err, db)
            | Inr None \<Rightarrow> (error_response 404 ''Prediction not found'', db)
            | Inr (Some p) \<Rightarrow>
                (\<lparr>code = 200, status = ''success'', message = None,
                  data = Some (PredictionData p)\<rparr>, db)))"

definition deletePrediction :: "database \<Rightarrow> request \<Rightarrow> response \<times> database" where
  "deletePrediction db req =
     (let predictionId = params_id req;
          userId = auth_id req
      in if readyState db \<noteq> 1 then
           (if \<not> startsWith predictionId ''mock-''
               \<and> predictionId \<noteq> ''60d21b4667d0d8992e610c85''
            then (error_response 404 ''Prediction not found'', db)
            else (\<lparr>code = 200, status = ''success'',
                   message = Some ''Prediction deleted successfully (MOCK - No DB)'',
                   data = None\<rparr>, db))
         else
           (case findOneAndDelete db predictionId userId of
              Inl err \<Rightarrow> (error_response 500 err, db)
            | Inr (None, db') \<Rightarrow>
                (error_response 404
                   ''Prediction not found or you don't have permission to delete it'', db')
            | Inr (Some p, db') \<Rightarrow>
                (\<lparr>code = 200, status = ''success'',
                  message = Some ''Prediction deleted successfully'', data = None\<rparr>, db')))"

section \<open>Notions used to state the properties\<close>

text \<open>A response whose message carries the degraded-mode marker.\<close>

definition has_mock_marker :: "response \<Rightarrow> bool" where
  "has_mock_marker r =
     (case message r of None \<Rightarrow> False | Some m \<Rightarrow> includes_str m ''(MOCK - No DB)'')"

text \<open>The id rule of the mock paths, in the words of the specification.\<close>

definition mock_id_accepted :: "string \<Rightarrow> bool" where
  "mock_id_accepted pid = (startsWith pid ''mock-'' \<or> pid = ''60d21b4667d0d8992e610c85'')"

text \<open>
  The first key of the schema, in schema order, whose rule the payload violates, and the
  message of that violation.
\<close>

definition violates ::
  "joi_release \<Rightarrow> (string \<Rightarrow> joi_coerced) \<Rightarrow> jsobject \<Rightarrow> joi_key \<Rightarrow> bool" where
  "violates rel cn raw k = isl (check_key rel cn k (get_prop raw (key_name k)))"

definition first_violation ::
  "joi_release \<Rightarrow> (string \<Rightarrow> joi_coerced) \<Rightarrow> joi_key list \<Rightarrow> jsobject
     \<Rightarrow> joi_key option" where
  "first_violation rel cn schema raw = find (violates rel cn raw) schema"

definition violation_message ::
  "joi_release \<Rightarrow> (string \<Rightarrow> joi_coerced) \<Rightarrow> jsobject \<Rightarrow> joi_key \<Rightarrow> string" where
  "violation_message rel cn raw k =
     (case check_key rel cn k (get_prop raw (key_name k)) of Inl msg \<Rightarrow> msg | Inr v \<Rightarrow> [])"

text \<open>The reasons that the message about a key of the schema can give.\<close>

definition reasons :: "joi_key \<Rightarrow> string list" where
  "reasons k =
     ['' is required'', reason_type (key_type k), reason_string, reason_empty, reason_unsafe,
      reason_infinity]"

definition required_names :: "string list" where
  "required_names = [''gender'', ''age'', ''heartDisease'', ''smokingHistory'', ''bmi'']"

definition optional_names :: "string list" where
  "optional_names = [''hypertension'', ''hbA1cLevel'', ''bloodGlucoseLevel'']"

text \<open>
  The threshold rules of the fallback, for a member that is given as a JSON number or a
  JSON boolean, or is omitted: \<open>level_rule m c high normal label\<close> says that \<open>label\<close> is
  \<open>high\<close> when the number \<open>m\<close> is greater than \<open>c\<close> and \<open>normal\<close> otherwise, and
  \<open>flag_rule m label\<close> that \<open>label\<close> is \<^verbatim>\<open>Present\<close> when the boolean \<open>m\<close> is true and
  \<^verbatim>\<open>Absent\<close> otherwise; an omitted member counts as not high, and as not present. Of a
  member of another kind the rules say nothing.
\<close>

definition level_rule :: "jsvalue option \<Rightarrow> real \<Rightarrow> string \<Rightarrow> string \<Rightarrow> string \<Rightarrow> bool" where
  "level_rule m c high normal label =
     (case m of
        None \<Rightarrow> label = normal
      | Some (JNum x) \<Rightarrow> label = (if c < x then high else normal)
      | Some _ \<Rightarrow> True)"

definition flag_rule :: "jsvalue option \<Rightarrow> string \<Rightarrow> bool" where
  "flag_rule m label =
     (case m of
        None \<Rightarrow> label = ''Absent''
      | Some (JBool b) \<Rightarrow> label = (if b then ''Present'' else ''Absent'')
      | Some _ \<Rightarrow> True)"

text \<open>
  \<open>decimal_of n s\<close>: the string \<open>s\<close> is the decimal numeral of the integer \<open>n\<close>, with a
  minus sign when \<open>n\<close> is negative and no leading zero.
\<close>

definition numeral_of :: "int \<Rightarrow> string \<Rightarrow> bool" where
  "numeral_of n s =
     (s \<noteq> [] \<and> list_all (is_radix_digit 10) s \<and> (length s = 1 \<or> hd s \<noteq> CHR ''0'')
      \<and> digits_value 10 s = n)"

definition decimal_of :: "int \<Rightarrow> string \<Rightarrow> bool" where
  "decimal_of n s =
     (if n < 0 then s \<noteq> [] \<and> hd s = CHR ''-'' \<and> numeral_of (- n) (tl s) else numeral_of n s)"

text \<open>The canned content of the record the mock path of \<^verbatim>\<open>getPredictionById\<close> returns.\<close>

definition canned_inputData :: jsobject where
  "canned_inputData =
     [(''glucose'', JNum 140), (''bloodPressure'', JNum 80), (''skinThickness'', JNum 25),
      (''insulin'', JNum 120), (''bmi'', JNum 24.5), (''age'', JNum 45)]"

definition canned_result :: prediction_result where
  "canned_result =
     \<lparr>prediction = ''High Risk'', riskScore = 0.75,
      factors = [(''glucose'', ''High''), (''bloodPressure'', ''Normal''), (''bmi'', ''Normal'')],
      recommendations = None\<rparr>"

text \<open>The records and the pagination of a history response.\<close>

definition history_items :: "response \<Rightarrow> prediction_doc list" where
  "history_items r = (case data r of Some (HistoryData ps pg) \<Rightarrow> ps | _ \<Rightarrow> [])"

definition history_pagination :: "response \<Rightarrow> pagination option" where
  "history_pagination r = (case data r of Some (HistoryData ps pg) \<Rightarrow> Some pg | _ \<Rightarrow> None)"

section \<open>Concrete inputs\<close>

text \<open>A valid payload that omits every optional member, \<open>hypertension\<close> among them.\<close>

definition sample_payload :: jsobject where
  "sample_payload =
     [(''gender'', JStr ''Male''), (''age'', JNum 45), (''heartDisease'', JBool False),
      (''smokingHistory'', JStr ''never''), (''bmi'', JNum 24.5)]"

text \<open>A valid payload with every member, all given as JSON numbers and booleans.\<close>

definition full_payload :: jsobject where
  "full_payload =
     [(''gender'', JStr ''Female''), (''age'', JNum 61), (''hypertension'', JBool True),
      (''heartDisease'', JBool False), (''smokingHistory'', JStr ''former''),
      (''bmi'', JNum 31), (''hbA1cLevel'', JNum 6.5), (''bloodGlucoseLevel'', JNum 150)]"

text \<open>
  A reading of strings as numbers that takes no string for a number. The payloads below
  give their numbers as JSON numbers, so that no reading is asked for.
\<close>

definition no_numeric_string :: "string \<Rightarrow> joi_coerced" where
  "no_numeric_string s = NotNumeric"

definition failing_service :: service where
  "failing_service =
     \<lparr>makePrediction = (\<lambda>inp. Inl ''model not loaded''),
      getRecommendations = (\<lambda>r. Inr static_recommendations)\<rparr>"

text \<open>
  An environment whose clock advances by one millisecond at each reading and whose random
  numbers are all \<open>1 / 4\<close>. The numbers computed from these are doubles as they stand, which
  rounding leaves as they are, and no payload below has a string where the fallback
  compares a number.
\<close>

definition sample_env :: env where
  "sample_env =
     \<lparr>dateNow = (\<lambda>k. 1730000000000 + int k),
      mathRandom = (\<lambda>k. 1 / 4),
      newObjectId = ''60d21b4667d0d8992e610c86'',
      roundDouble = (\<lambda>x. x),
      stringToNumber = (\<lambda>s. NaN)\<rparr>"

definition sample_request :: request where
  "sample_request =
     \<lparr>payload = sample_payload, auth_id = ''alice'', params_id = ''mock-1'',
      query_page = Some ''0'', query_limit = Some ''abc''\<rparr>"

definition full_request :: request where
  "full_request =
     \<lparr>payload = full_payload, auth_id = ''alice'', params_id = ''mock-1'',
      query_page = None, query_limit = None\<rparr>"

text \<open>Stores that refuse an unusual skip or limit.\<close>

definition refuse_unusual ::
  "jsnum \<Rightarrow> jsnum \<Rightarrow> prediction_doc list \<Rightarrow> string + prediction_doc list" where
  "refuse_unusual skip lmt found = Inl ''skip or limit out of range''"

definition mock_db :: database where
  "mock_db = \<lparr>readyState = 0, docs = [], fault = None, unusual = refuse_unusual\<rparr>"

definition alice_doc :: prediction_doc where
  "alice_doc =
     \<lparr>doc_id = ''60d21b4667d0d8992e610c85'', inputData = sample_payload,
      result = canned_result, createdAt = 1729000000000, user = ''alice''\<rparr>"

definition live_db :: database where
  "live_db = \<lparr>readyState = 1, docs = [alice_doc], fault = None, unusual = refuse_unusual\<rparr>"

definition refusing_db :: database where
  "refusing_db =
     \<lparr>readyState = 1, docs = [], fault = Some ''write refused'', unusual = refuse_unusual\<rparr>"

definition unreachable_db :: database where
  "unreachable_db =
     \<lparr>readyState = 1, docs = [alice_doc], fault = Some ''connection lost'',
      unusual = refuse_unusual\<rparr>"

definition alice_request :: request where
  "alice_request =
     \<lparr>payload = [], auth_id = ''alice'', params_id = ''60d21b4667d0d8992e610c85'',
      query_page = None, query_limit = None\<rparr>"

definition bob_request :: request where
  "bob_request =
     \<lparr>payload = [], auth_id = ''bob'', params_id = ''60d21b4667d0d8992e610c85'',
      query_page = None, query_limit = None\<rparr>"

text \<open>A service that reports whether the input it is given has a \<open>hypertension\<close> member.\<close>

definition probe_service :: service where
  "probe_service =
     \<lparr>makePrediction =
        (\<lambda>inp. Inr \<lparr>prediction = (if get_prop inp ''hypertension'' = None
                                    then ''hypertension absent'' else ''hypertension present''),
                      riskScore = 0, factors = [], recommendations = None\<rparr>),
      getRecommendations = (\<lambda>r. Inr static_recommendations)\<rparr>"

text \<open>
  A store with two records of one user and one of another, and requests to list them; the
  first gives its limit with a no-break space in front.
\<close>

definition bob_doc :: prediction_doc where
  "bob_doc =
     \<lparr>doc_id = ''60d21b4667d0d8992e610c87'', inputData = sample_payload,
      result = canned_result, createdAt = 1729500000000, user = ''bob''\<rparr>"

definition alice_doc2 :: prediction_doc where
  "alice_doc2 =
     \<lparr>doc_id = ''60d21b4667d0d8992e610c88'', inputData = sample_payload,
      result = canned_result, createdAt = 1729900000000, user = ''alice''\<rparr>"

definition two_user_db :: database where
  "two_user_db =
     \<lparr>readyState = 1, docs = [alice_doc, bob_doc, alice_doc2], fault = None,
      unusual = refuse_unusual\<rparr>"

definition page2_request :: request where
  "page2_request =
     \<lparr>payload = [], auth_id = ''alice'', params_id = [],
      query_page = Some ''2'', query_limit = Some [CHR 0xA0, CHR ''1'']\<rparr>"

definition negative_limit_request :: request where
  "negative_limit_request =
     \<lparr>payload = [], auth_id = ''alice'', params_id = [],
      query_page = None, query_limit = Some ''-5''\<rparr>"

text \<open>A request whose limit is a numeral of 400 digits.\<close>

definition huge_limit_request :: request where
  "huge_limit_request =
     \<lparr>payload = [], auth_id = ''alice'', params_id = [],
      query_page = None, query_limit = Some (replicate 400 (CHR ''9''))\<rparr>"

text \<open>Payloads that lack required members.\<close>

definition missing_age_request :: request where
  "missing_age_request =
     \<lparr>payload = [(''gender'', JStr ''Male'')], auth_id = ''alice'', params_id = [],
      query_page = None, query_limit = None\<rparr>"

definition bad_optional_request :: request where
  "bad_optional_request =
     \<lparr>payload = [(''gender'', JStr ''Male''), (''age'', JNum 45), (''hypertension'', JNum 1)],
      auth_id = ''alice'', params_id = [], query_page = None, query_limit = None\<rparr>"

text \<open>A payload whose \<open>age\<close> is not a safe number, and which lacks \<open>heartDisease\<close>.\<close>

definition unsafe_age_request :: request where
  "unsafe_age_request =
     \<lparr>payload = [(''gender'', JStr ''Male''), (''age'', JNum 9007199254740992)],
      auth_id = ''alice'', params_id = [], query_page = None, query_limit = None\<rparr>"

text \<open>A valid payload that gives \<open>heartDisease\<close> as the string \<^verbatim>\<open>false\<close>.\<close>

definition string_flag_payload :: jsobject where
  "string_flag_payload =
     [(''gender'', JStr ''Female''), (''age'', JNum 30), (''heartDisease'', JStr ''false''),
      (''smokingHistory'', JStr ''never''), (''bmi'', JNum 22)]"

definition string_flag_request :: request where
  "string_flag_request =
     \<lparr>payload = string_flag_payload, auth_id = ''alice'', params_id = [],
      query_page = None, query_limit = None\<rparr>"

section \<open>Auxiliary facts\<close>

lemma show_int_sample: "show_int 1730000000000 = ''1730000000000''"
  by code_simp

lemma validate_sample:
  "validate rel cn predictionValidation sample_payload
     = Inr (sample_payload @ [(''hypertension'', JBool False)])"
  by (simp add: validate_def predictionValidation_def sample_payload_def check_key_def
        check_value_def safe_number_def get_prop_def own_keys_def)

lemma validate_full: "validate rel cn predictionValidation full_payload = Inr full_payload"
  by (simp add: validate_def predictionValidation_def full_payload_def check_key_def
        check_value_def safe_number_def get_prop_def own_keys_def)

lemma predict_failing: "predict failing_service e inp = fallback_result e inp"
  by (simp add: predict_def failing_service_def)

lemma marker_create:
  "includes_str ''Prediction created successfully (MOCK - No DB)'' ''(MOCK - No DB)''"
  by code_simp

lemma marker_delete:
  "includes_str ''Prediction deleted successfully (MOCK - No DB)'' ''(MOCK - No DB)''"
  by code_simp

lemma accepted_mock_1: "mock_id_accepted ''mock-1''"
  by (simp add: mock_id_accepted_def startsWith_def)

lemma remove_first_no_match: "\<not> list_ex P xs \<Longrightarrow> remove_first P xs = xs"
  by (induction xs) auto

lemma find_no_match: "\<not> list_ex P xs \<Longrightarrow> find P xs = None"
  by (simp add: find_None_iff list_ex_iff)

lemma matches_gone:
  "distinct (map doc_id ds) \<Longrightarrow> \<not> list_ex (matches pid uid) (remove_first (matches pid uid) ds)"
proof (induction ds)
  case Nil
  then show ?case by simp
next
  case (Cons d ds)
  show ?case
  proof (cases "matches pid uid d")
    case True
    with Cons.prems have "\<forall>x\<in>set ds. doc_id x \<noteq> pid"
      by (force simp: matches_def)
    with True show ?thesis by (simp add: matches_def list_ex_iff)
  next
    case False
    with Cons show ?thesis by simp
  qed
qed

lemma get_absent:
  assumes "readyState db = 1" and "fault db = None"
      and "\<not> list_ex (matches (params_id req) (auth_id req)) (docs db)"
  shows "getPredictionById e db req = (error_response 404 ''Prediction not found'', db)"
  using assms by (simp add: getPredictionById_def Let_def findOne_def find_no_match)

lemma delete_absent:
  assumes "readyState db = 1" and "fault db = None"
      and "\<not> list_ex (matches (params_id req) (auth_id req)) (docs db)"
  shows "deletePrediction db req =
           (error_response 404
              ''Prediction not found or you don't have permission to delete it'', db)"
  using assms
  by (simp add: deletePrediction_def Let_def findOneAndDelete_def find_no_match
        remove_first_no_match)

lemma delete_state:
  assumes "readyState db = 1" and "fault db = None"
  shows "snd (deletePrediction db req)
           = db\<lparr>docs := remove_first (matches (params_id req) (auth_id req)) (docs db)\<rparr>"
  using assms
  by (simp add: deletePrediction_def Let_def findOneAndDelete_def split: option.splits)

section \<open>Validation errors\<close>

lemma hint_messages:
  "list_all (\<lambda>f. list_all (\<lambda>r. validation_message (quote (key_name f) @ r)
                              = (if key_name f \<in> set optional_names
                                 then (quote (key_name f) @ r) @ optional_hint
                                 else quote (key_name f) @ r)) (reasons f))
     predictionValidation"
  by code_simp

lemma schema_names:
  "list_all (\<lambda>f. (key_name f \<in> set required_names \<or> key_name f \<in> set optional_names)
              \<and> (key_name f \<in> set required_names) = key_required f)
           predictionValidation"
  by code_simp

lemma required_in_schema:
  "list_all (\<lambda>k. list_ex (\<lambda>f. key_name f = k \<and> key_required f) predictionValidation)
     required_names"
  by code_simp

lemma message_names_key: "includes_str (quote k @ r) k"
proof -
  have "sublist k ([CHR 0x22] @ k @ (CHR 0x22 # r))"
    by (rule sublist_appendI)
  then show ?thesis by (simp add: includes_str_def quote_def)
qed

lemma check_value_reason:
  "check_value rel cn t v = Inl r \<Longrightarrow>
     r \<in> {reason_type t, reason_string, reason_empty, reason_unsafe, reason_infinity}"
  by (auto simp: check_value_def safe_number_def
        split: joi_type.splits jsvalue.splits joi_coerced.splits if_splits)

lemma violates_message:
  "violates rel cn raw f \<Longrightarrow>
     check_key rel cn f (get_prop raw (key_name f)) = Inl (violation_message rel cn raw f)"
  by (cases "check_key rel cn f (get_prop raw (key_name f))")
     (simp_all add: violates_def violation_message_def)

lemma violation_reason:
  assumes "violates rel cn raw f"
  shows "\<exists>r\<in>set (reasons f). violation_message rel cn raw f = quote (key_name f) @ r"
proof (cases "get_prop raw (key_name f)")
  case None
  with assms have "violation_message rel cn raw f = quote (key_name f) @ '' is required''"
    by (auto simp: violates_def violation_message_def check_key_def msg_required_def
          split: if_splits)
  then show ?thesis by (simp add: reasons_def)
next
  case (Some v)
  show ?thesis
  proof (cases "check_value rel cn (key_type f) v")
    case (Inl r)
    then have "r \<in> set (reasons f)"
      using check_value_reason [OF Inl] by (auto simp: reasons_def)
    moreover from Some Inl have "violation_message rel cn raw f = quote (key_name f) @ r"
      by (simp add: violation_message_def check_key_def)
    ultimately show ?thesis by blast
  next
    case (Inr w)
    with Some assms show ?thesis
      by (simp add: violates_def check_key_def)
  qed
qed

lemma validate_keys_first:
  "find (violates rel cn raw) ks = Some f \<Longrightarrow>
     validate_keys rel cn ks raw val = Inl (violation_message rel cn raw f)"
proof (induction ks arbitrary: val)
  case Nil
  then show ?case by simp
next
  case (Cons k ks)
  show ?case
  proof (cases "violates rel cn raw k")
    case True
    with Cons.prems have "f = k" by simp
    with True show ?thesis by (simp add: violates_message)
  next
    case False
    with Cons.prems have "find (violates rel cn raw) ks = Some f" by simp
    then have "validate_keys rel cn ks raw val' = Inl (violation_message rel cn raw f)" for val'
      by (rule Cons.IH)
    moreover from False obtain x where "check_key rel cn k (get_prop raw (key_name k)) = Inr x"
      by (cases "check_key rel cn k (get_prop raw (key_name k))") (simp_all add: violates_def)
    ultimately show ?thesis by (simp split: option.splits)
  qed
qed

lemma validate_first:
  "first_violation rel cn schema raw = Some f \<Longrightarrow>
     validate rel cn schema raw = Inl (violation_message rel cn raw f)"
  by (simp add: first_violation_def validate_def validate_keys_first)

lemma missing_required_violates:
  assumes "k \<in> set required_names" and "get_prop raw k = None"
  shows "\<exists>g\<in>set predictionValidation. key_name g = k \<and> violates rel cn raw g"
proof -
  from required_in_schema assms(1)
  obtain g where "g \<in> set predictionValidation" "key_name g = k" "key_required g"
    by (auto simp: list_all_iff list_ex_iff)
  with assms(2) show ?thesis
    by (auto simp: violates_def check_key_def)
qed

lemma find_first_named:
  assumes "find P ks = Some f"
      and "\<exists>g\<in>set ks. key_name g = k \<and> P g"
      and "\<not> list_ex P (takeWhile (\<lambda>g. key_name g \<noteq> k) ks)"
      and "distinct (map key_name ks)"
  shows "key_name f = k"
  using assms
proof (induction ks)
  case Nil
  then show ?case by simp
next
  case (Cons a ks)
  show ?case
  proof (cases "key_name a = k")
    case True
    from Cons.prems(4) have "key_name a \<notin> key_name ` set ks" by simp
    with True have "\<forall>g\<in>set ks. key_name g \<noteq> k" by (metis image_eqI)
    with Cons.prems(2) True have "P a" by auto
    with Cons.prems(1) True show ?thesis by simp
  next
    case False
    with Cons.prems(3) have na: "\<not> P a"
      and rest: "\<not> list_ex P (takeWhile (\<lambda>g. key_name g \<noteq> k) ks)"
      by simp_all
    with Cons.prems(1) have "find P ks = Some f" by simp
    moreover from Cons.prems(2) na have "\<exists>g\<in>set ks. key_name g = k \<and> P g" by auto
    moreover from Cons.prems(4) have "distinct (map key_name ks)" by simp
    ultimately show ?thesis using rest Cons.IH by blast
  qed
qed

lemma schema_distinct: "distinct (map key_name predictionValidation)"
  by (simp add: predictionValidation_def)

text \<open>
  Claim C7. Whenever a rule of the schema is violated, \<^verbatim>\<open>createPrediction\<close> responds 400
  with status error and the message of the first rule violated in schema order, which names
  the key of that rule; when that key is one of the optional keys the guidance on omitting
  it is appended, and the store is left as it was. A payload that lacks a required member
  violates a rule, so it gets such a response; when the missing member is the first violation
  (no key before it in the schema is violated) the message is \<open>"key" is required\<close>.
\<close>

theorem missing_required_is_400:
  "(first_violation rel cn predictionValidation (payload req) = Some f \<longrightarrow>
      createPrediction (validate rel cn) svc e db req =
        (\<lparr>code = 400, status = ''error'',
          message = Some (if key_name f \<in> set optional_names
                          then violation_message rel cn (payload req) f @ optional_hint
                          else violation_message rel cn (payload req) f),
          data = None\<rparr>, db)
      \<and> includes_str (violation_message rel cn (payload req) f) (key_name f)
      \<and> (key_name f \<in> set required_names \<or> key_name f \<in> set optional_names))
   \<and> (k \<in> set required_names \<and> get_prop (payload req) k = None \<longrightarrow>
        (\<exists>g. first_violation rel cn predictionValidation (payload req) = Some g
           \<and> code (fst (createPrediction (validate rel cn) svc e db req)) = 400
           \<and> status (fst (createPrediction (validate rel cn) svc e db req)) = ''error''
           \<and> (key_name g = k \<longrightarrow> violation_message rel cn (payload req) g = msg_required k)
           \<and> (\<not> list_ex (violates rel cn (payload req))
                    (takeWhile (\<lambda>h. key_name h \<noteq> k) predictionValidation)
                \<longrightarrow> key_name g = k)))"
proof -
  let ?raw = "payload req"
  have first: "createPrediction (validate rel cn) svc e db req =
        (\<lparr>code = 400, status = ''error'',
          message = Some (if key_name f \<in> set optional_names
                          then violation_message rel cn ?raw f @ optional_hint
                          else violation_message rel cn ?raw f),
          data = None\<rparr>, db)
      \<and> includes_str (violation_message rel cn ?raw f) (key_name f)
      \<and> (key_name f \<in> set required_names \<or> key_name f \<in> set optional_names)"
    if f: "first_violation rel cn predictionValidation ?raw = Some f" for f
  proof -
    from f have mem: "f \<in> set predictionValidation" and vio: "violates rel cn ?raw f"
      by (auto simp: first_violation_def find_Some_iff)
    have v: "validate rel cn predictionValidation ?raw = Inl (violation_message rel cn ?raw f)"
      using validate_first [OF f] .
    have names: "key_name f \<in> set required_names \<or> key_name f \<in> set optional_names"
      using schema_names mem by (auto simp: list_all_iff)
    from violation_reason [OF vio] obtain r where
      r: "r \<in> set (reasons f)" and m: "violation_message rel cn ?raw f = quote (key_name f) @ r"
      by blast
    have hint: "validation_message (violation_message rel cn ?raw f)
                  = (if key_name f \<in> set optional_names
                     then violation_message rel cn ?raw f @ optional_hint
                     else violation_message rel cn ?raw f)"
      unfolding m using hint_messages mem r by (auto simp: list_all_iff)
    have resp: "createPrediction (validate rel cn) svc e db req =
                 (\<lparr>code = 400, status = ''error'',
                   message = Some (if key_name f \<in> set optional_names
                                   then violation_message rel cn ?raw f @ optional_hint
                                   else violation_message rel cn ?raw f),
                   data = None\<rparr>, db)"
      by (simp add: createPrediction_def v error_response_def hint)
    have inc: "includes_str (violation_message rel cn ?raw f) (key_name f)"
      unfolding m by (rule message_names_key)
    from resp inc names show ?thesis by simp
  qed
  have second: "\<exists>g. first_violation rel cn predictionValidation ?raw = Some g
           \<and> code (fst (createPrediction (validate rel cn) svc e db req)) = 400
           \<and> status (fst (createPrediction (validate rel cn) svc e db req)) = ''error''
           \<and> (key_name g = k \<longrightarrow> violation_message rel cn ?raw g = msg_required k)
           \<and> (\<not> list_ex (violates rel cn ?raw)
                    (takeWhile (\<lambda>h. key_name h \<noteq> k) predictionValidation)
                \<longrightarrow> key_name g = k)"
    if k: "k \<in> set required_names" and absent: "get_prop ?raw k = None"
  proof -
    have ex: "\<exists>g\<in>set predictionValidation. key_name g = k \<and> violates rel cn ?raw g"
      using missing_required_violates [OF k absent] .
    then obtain g where g: "first_violation rel cn predictionValidation ?raw = Some g"
      by (cases "first_violation rel cn predictionValidation ?raw")
         (auto simp: first_violation_def find_None_iff)
    have c: "code (fst (createPrediction (validate rel cn) svc e db req)) = 400"
      and st: "status (fst (createPrediction (validate rel cn) svc e db req)) = ''error''"
      using first [OF g] by simp_all
    have rq: "key_name g = k \<longrightarrow> violation_message rel cn ?raw g = msg_required k"
    proof
      assume gk: "key_name g = k"
      from g have "violates rel cn ?raw g"
        by (auto simp: first_violation_def find_Some_iff)
      with gk absent show "violation_message rel cn ?raw g = msg_required k"
        by (auto simp: violates_def violation_message_def check_key_def split: if_splits)
    qed
    have fst: "\<not> list_ex (violates rel cn ?raw)
                    (takeWhile (\<lambda>h. key_name h \<noteq> k) predictionValidation)
                \<longrightarrow> key_name g = k"
      using find_first_named [OF g [unfolded first_violation_def] ex _ schema_distinct]
      by blast
    from g c st rq fst show ?thesis by blast
  qed
  from first second show ?thesis by blast
qed

lemma get_prop_age: "get_prop (payload missing_age_request) ''age'' = None"
  by (simp add: missing_age_request_def get_prop_def)

lemma first_violation_age:
  "first_violation rel cn predictionValidation (payload missing_age_request)
     = Some \<lparr>key_name = ''age'', key_type = JoiNumber, key_required = True,
             key_default = None\<rparr>"
  by (simp add: first_violation_def predictionValidation_def violates_def check_key_def
        check_value_def missing_age_request_def get_prop_def)

lemma first_violation_hypertension:
  "first_violation rel cn predictionValidation (payload bad_optional_request)
     = Some \<lparr>key_name = ''hypertension'', key_type = JoiBoolean, key_required = False,
             key_default = Some (JBool False)\<rparr>"
  by (simp add: first_violation_def predictionValidation_def violates_def check_key_def
        check_value_def safe_number_def bad_optional_request_def get_prop_def)

lemma first_violation_unsafe:
  "first_violation rel cn predictionValidation (payload unsafe_age_request)
     = Some \<lparr>key_name = ''age'', key_type = JoiNumber, key_required = True,
             key_default = None\<rparr>"
  by (simp add: first_violation_def predictionValidation_def violates_def check_key_def
        check_value_def safe_number_def unsafe_age_request_def get_prop_def)

theorem missing_required_is_400_witness:
  "''age'' \<in> set required_names
   \<and> get_prop (payload missing_age_request) ''age'' = None
   \<and> first_violation Release16 no_numeric_string predictionValidation (payload missing_age_request)
       = Some \<lparr>key_name = ''age'', key_type = JoiNumber, key_required = True,
               key_default = None\<rparr>
   \<and> \<not> list_ex (violates Release16 no_numeric_string (payload missing_age_request))
          (takeWhile (\<lambda>h. key_name h \<noteq> ''age'') predictionValidation)
   \<and> createPrediction (validate Release16 no_numeric_string) failing_service sample_env mock_db
         missing_age_request =
       (\<lparr>code = 400, status = ''error'', message = Some (msg_required ''age''),
         data = None\<rparr>, mock_db)
   \<and> first_violation Release16 no_numeric_string predictionValidation (payload bad_optional_request)
       = Some \<lparr>key_name = ''hypertension'', key_type = JoiBoolean, key_required = False,
               key_default = Some (JBool False)\<rparr>
   \<and> createPrediction (validate Release16 no_numeric_string) failing_service sample_env mock_db
         bad_optional_request =
       (\<lparr>code = 400, status = ''error'',
         message = Some (quote ''hypertension'' @ '' must be a boolean'' @ optional_hint),
         data = None\<rparr>, mock_db)
   \<and> get_prop (payload unsafe_age_request) ''heartDisease'' = None
   \<and> createPrediction (validate Release16 no_numeric_string) failing_service sample_env mock_db
         unsafe_age_request =
       (\<lparr>code = 400, status = ''error'',
         message = Some (quote ''age'' @ '' must be a safe number''),
         data = None\<rparr>, mock_db)"
proof -
  let ?rel = Release16
  let ?cn = no_numeric_string
  let ?age = "\<lparr>key_name = ''age'', key_type = JoiNumber, key_required = True,
               key_default = None\<rparr>"
  let ?hyp = "\<lparr>key_name = ''hypertension'', key_type = JoiBoolean, key_required = False,
               key_default = Some (JBool False)\<rparr>"
  have a: "''age'' \<in> set required_names"
    by (simp add: required_names_def)
  have before: "\<not> list_ex (violates ?rel ?cn (payload missing_age_request))
          (takeWhile (\<lambda>h. key_name h \<noteq> ''age'') predictionValidation)"
    by (simp add: predictionValidation_def violates_def check_key_def check_value_def
          missing_age_request_def get_prop_def)
  have vm: "violation_message ?rel ?cn (payload missing_age_request) ?age = msg_required ''age''"
    by (simp add: violation_message_def check_key_def get_prop_age)
  have r1: "createPrediction (validate ?rel ?cn) failing_service sample_env mock_db
              missing_age_request =
       (\<lparr>code = 400, status = ''error'', message = Some (msg_required ''age''),
         data = None\<rparr>, mock_db)"
    using missing_required_is_400
            [of ?rel ?cn missing_age_request ?age failing_service sample_env mock_db "''age''"]
          first_violation_age [of ?rel ?cn]
    by (simp add: vm optional_names_def)
  have vm2: "violation_message ?rel ?cn (payload bad_optional_request) ?hyp
               = quote ''hypertension'' @ '' must be a boolean''"
    by (simp add: violation_message_def check_key_def check_value_def reason_type_def
          bad_optional_request_def get_prop_def)
  have r2: "createPrediction (validate ?rel ?cn) failing_service sample_env mock_db
              bad_optional_request =
       (\<lparr>code = 400, status = ''error'',
         message = Some (quote ''hypertension'' @ '' must be a boolean'' @ optional_hint),
         data = None\<rparr>, mock_db)"
    using missing_required_is_400
            [of ?rel ?cn bad_optional_request ?hyp failing_service sample_env mock_db "''age''"]
          first_violation_hypertension [of ?rel ?cn]
    by (simp add: vm2 optional_names_def)
  have h: "get_prop (payload unsafe_age_request) ''heartDisease'' = None"
    by (simp add: unsafe_age_request_def get_prop_def)
  have vm3: "violation_message ?rel ?cn (payload unsafe_age_request) ?age
               = quote ''age'' @ '' must be a safe number''"
    by (simp add: violation_message_def check_key_def check_value_def safe_number_def
          reason_unsafe_def unsafe_age_request_def get_prop_def)
  have r3: "createPrediction (validate ?rel ?cn) failing_service sample_env mock_db
              unsafe_age_request =
       (\<lparr>code = 400, status = ''error'',
         message = Some (quote ''age'' @ '' must be a safe number''),
         data = None\<rparr>, mock_db)"
    using missing_required_is_400
            [of ?rel ?cn unsafe_age_request ?age failing_service sample_env mock_db "''age''"]
          first_violation_unsafe [of ?rel ?cn]
    by (simp add: vm3 optional_names_def)
  show ?thesis
    by (intro conjI a get_prop_age first_violation_age before r1
          first_violation_hypertension r2 h r3)
qed

section \<open>What becomes of the validated value\<close>

lemma validate_string_flag:
  "validate rel cn predictionValidation string_flag_payload
     = Inr [(''gender'', JStr ''Female''), (''age'', JNum 30), (''heartDisease'', JBool False),
            (''smokingHistory'', JStr ''never''), (''bmi'', JNum 22),
            (''hypertension'', JBool False)]"
proof -
  have l: "toLowerCase ''false'' = ''false''" by code_simp
  show ?thesis
    by (simp add: validate_def predictionValidation_def string_flag_payload_def check_key_def
          check_value_def safe_number_def get_prop_def own_keys_def l)
qed

lemma fallback_string_flag:
  "fallback_result sample_env string_flag_payload =
     \<lparr>prediction = ''Low Risk'', riskScore = 1 / 4,
      factors = [(''bloodGlucoseLevel'', ''Normal''), (''hbA1cLevel'', ''Normal''),
                 (''bmi'', ''Normal''), (''hypertension'', ''Absent''),
                 (''heartDisease'', ''Present'')],
      recommendations = Some static_recommendations\<rparr>"
  by (simp add: fallback_result_def sample_env_def string_flag_payload_def get_prop_def
        js_gt_def to_number_def truthy_def)

text \<open>
  Claim C3 does not hold of the code. The schema declares \<open>false\<close> as the default of an
  omitted \<open>hypertension\<close>, and validation of the sample payload yields a value with that
  member; but \<^verbatim>\<open>createPrediction\<close> keeps only the error of the validation and goes on with
  \<^verbatim>\<open>request.payload\<close>: the service is given an input without \<open>hypertension\<close>, and the
  \<open>inputData\<close> returned, and stored, has no such member. Likewise a \<open>heartDisease\<close> given
  as the string \<^verbatim>\<open>false\<close> is validated to the boolean \<open>false\<close>, yet the fallback reads the
  string as received and reports the factor as present.
\<close>

theorem create_ignores_default:
  "validate rel cn predictionValidation (payload sample_request)
     = Inr (sample_payload @ [(''hypertension'', JBool False)])
   \<and> get_prop (sample_payload @ [(''hypertension'', JBool False)]) ''hypertension''
       = Some (JBool False)
   \<and> get_prop sample_payload ''hypertension'' = None
   \<and> createPrediction (validate rel cn) probe_service sample_env mock_db sample_request =
       (\<lparr>code = 201, status = ''success'',
         message = Some ''Prediction created successfully (MOCK - No DB)'',
         data = Some (CreatedData ''mock-1730000000000'' sample_payload
                  \<lparr>prediction = ''hypertension absent'', riskScore = 0, factors = [],
                   recommendations = Some static_recommendations\<rparr>
                  1730000000001)\<rparr>, mock_db)
   \<and> map inputData (docs (snd (createPrediction (validate rel cn) probe_service sample_env live_db
                                  sample_request)))
       = [sample_payload, sample_payload]
   \<and> validate rel cn predictionValidation (payload string_flag_request)
       = Inr [(''gender'', JStr ''Female''), (''age'', JNum 30),
              (''heartDisease'', JBool False), (''smokingHistory'', JStr ''never''),
              (''bmi'', JNum 22), (''hypertension'', JBool False)]
   \<and> createPrediction (validate rel cn) failing_service sample_env mock_db string_flag_request =
       (\<lparr>code = 201, status = ''success'',
         message = Some ''Prediction created successfully (MOCK - No DB)'',
         data = Some (CreatedData ''mock-1730000000000'' string_flag_payload
                  \<lparr>prediction = ''Low Risk'', riskScore = 1 / 4,
                   factors = [(''bloodGlucoseLevel'', ''Normal''), (''hbA1cLevel'', ''Normal''),
                              (''bmi'', ''Normal''), (''hypertension'', ''Absent''),
                              (''heartDisease'', ''Present'')],
                   recommendations = Some static_recommendations\<rparr>
                  1730000000001)\<rparr>, mock_db)"
proof -
  have v: "validate rel cn predictionValidation (payload sample_request)
             = Inr (sample_payload @ [(''hypertension'', JBool False)])"
    by (simp add: sample_request_def validate_sample)
  have g1: "get_prop (sample_payload @ [(''hypertension'', JBool False)]) ''hypertension''
       = Some (JBool False)"
    and g2: "get_prop sample_payload ''hypertension'' = None"
    by (simp_all add: get_prop_def sample_payload_def)
  have p: "payload sample_request = sample_payload" by (simp add: sample_request_def)
  have pr: "predict probe_service sample_env sample_payload =
              \<lparr>prediction = ''hypertension absent'', riskScore = 0, factors = [],
               recommendations = Some static_recommendations\<rparr>"
    by (simp add: predict_def probe_service_def g2)
  have d0: "dateNow sample_env 0 = 1730000000000"
    and d1: "dateNow sample_env (Suc 0) = 1730000000001"
    by (simp_all add: sample_env_def)
  have m: "createPrediction (validate rel cn) probe_service sample_env mock_db sample_request =
       (\<lparr>code = 201, status = ''success'',
         message = Some ''Prediction created successfully (MOCK - No DB)'',
         data = Some (CreatedData ''mock-1730000000000'' sample_payload
                  \<lparr>prediction = ''hypertension absent'', riskScore = 0, factors = [],
                   recommendations = Some static_recommendations\<rparr>
                  1730000000001)\<rparr>, mock_db)"
    using v by (simp add: createPrediction_def Let_def mock_db_def p pr d0 d1 show_int_sample)
  have l: "map inputData (docs (snd (createPrediction (validate rel cn) probe_service sample_env
                                       live_db sample_request)))
       = [sample_payload, sample_payload]"
    using v
    by (simp add: createPrediction_def Let_def live_db_def p save_def newPrediction_def
          alice_doc_def)
  have p': "payload string_flag_request = string_flag_payload"
    by (simp add: string_flag_request_def)
  have v': "validate rel cn predictionValidation (payload string_flag_request)
       = Inr [(''gender'', JStr ''Female''), (''age'', JNum 30),
              (''heartDisease'', JBool False), (''smokingHistory'', JStr ''never''),
              (''bmi'', JNum 22), (''hypertension'', JBool False)]"
    by (simp add: p' validate_string_flag)
  have m': "createPrediction (validate rel cn) failing_service sample_env mock_db
              string_flag_request =
       (\<lparr>code = 201, status = ''success'',
         message = Some ''Prediction created successfully (MOCK - No DB)'',
         data = Some (CreatedData ''mock-1730000000000'' string_flag_payload
                  \<lparr>prediction = ''Low Risk'', riskScore = 1 / 4,
                   factors = [(''bloodGlucoseLevel'', ''Normal''), (''hbA1cLevel'', ''Normal''),
                              (''bmi'', ''Normal''), (''hypertension'', ''Absent''),
                              (''heartDisease'', ''Present'')],
                   recommendations = Some static_recommendations\<rparr>
                  1730000000001)\<rparr>, mock_db)"
    using v'
    by (simp add: createPrediction_def Let_def mock_db_def p' predict_failing
          fallback_string_flag d0 d1 show_int_sample)
  show ?thesis
    by (intro conjI v g1 g2 m l v' m')
qed

section \<open>Inference failure and the fallback\<close>

lemma predict_fallback:
  assumes "makePrediction svc inp = Inl err
           \<or> (\<exists>r. makePrediction svc inp = Inr r \<and> getRecommendations svc r = Inl err)"
  shows "predict svc e inp = fallback_result e inp"
  using assms by (auto simp: predict_def)

text \<open>How the comparisons and tests of the fallback read a number, a boolean, no member.\<close>

lemma level_rule_js_gt:
  "level_rule m c high normal (if js_gt sn m c then high else normal)"
  by (simp add: level_rule_def js_gt_def to_number_def split: option.splits jsvalue.splits)

lemma flag_rule_truthy:
  "flag_rule m (if truthy m then ''Present'' else ''Absent'')"
  by (simp add: flag_rule_def truthy_def split: option.splits jsvalue.splits)

text \<open>
  Claim C1, as stated, fails. With a valid payload and a failing inference service, a store
  that is connected but refuses the write makes \<^verbatim>\<open>createPrediction\<close> answer 500 with the
  store's error, not 201. And with the valid payload that gives \<open>heartDisease\<close> as the
  string \<^verbatim>\<open>false\<close>, which validation reads as the boolean \<open>false\<close>, the fallback reports
  the factor as \<^verbatim>\<open>Present\<close>.
\<close>

theorem create_store_failure:
  "(\<forall>rel cn. validate rel cn predictionValidation (payload sample_request)
            = Inr (sample_payload @ [(''hypertension'', JBool False)]))
   \<and> makePrediction failing_service (payload sample_request) = Inl ''model not loaded''
   \<and> readyState refusing_db = 1
   \<and> (\<forall>rel cn. fst (createPrediction (validate rel cn) failing_service sample_env refusing_db
                   sample_request)
            = \<lparr>code = 500, status = ''error'', message = Some ''write refused'',
               data = None\<rparr>)
   \<and> (\<forall>rel cn. \<exists>v. validate rel cn predictionValidation (payload string_flag_request) = Inr v
                 \<and> get_prop v ''heartDisease'' = Some (JBool False))
   \<and> makePrediction failing_service (payload string_flag_request) = Inl ''model not loaded''
   \<and> (\<forall>rel cn. \<exists>m i r t.
          fst (createPrediction (validate rel cn) failing_service sample_env mock_db
                 string_flag_request)
            = \<lparr>code = 201, status = ''success'', message = Some m,
               data = Some (CreatedData i string_flag_payload r t)\<rparr>
          \<and> map_of (factors r) ''heartDisease'' = Some ''Present'')"
proof -
  have a: "\<forall>rel cn. validate rel cn predictionValidation (payload sample_request)
            = Inr (sample_payload @ [(''hypertension'', JBool False)])"
    by (simp add: sample_request_def validate_sample)
  have b: "makePrediction failing_service (payload sample_request) = Inl ''model not loaded''"
    and b': "makePrediction failing_service (payload string_flag_request)
               = Inl ''model not loaded''"
    by (simp_all add: failing_service_def)
  have c: "readyState refusing_db = 1" by (simp add: refusing_db_def)
  have d: "\<forall>rel cn. fst (createPrediction (validate rel cn) failing_service sample_env refusing_db
                   sample_request)
            = \<lparr>code = 500, status = ''error'', message = Some ''write refused'',
               data = None\<rparr>"
    by (simp add: sample_request_def validate_sample refusing_db_def createPrediction_def
          Let_def save_def error_response_def)
  have p': "payload string_flag_request = string_flag_payload"
    by (simp add: string_flag_request_def)
  have e: "\<forall>rel cn. \<exists>v. validate rel cn predictionValidation (payload string_flag_request) = Inr v
                 \<and> get_prop v ''heartDisease'' = Some (JBool False)"
    by (simp add: p' validate_string_flag get_prop_def)
  have f: "\<forall>rel cn. \<exists>m i r t.
          fst (createPrediction (validate rel cn) failing_service sample_env mock_db
                 string_flag_request)
            = \<lparr>code = 201, status = ''success'', message = Some m,
               data = Some (CreatedData i string_flag_payload r t)\<rparr>
          \<and> map_of (factors r) ''heartDisease'' = Some ''Present''"
    by (simp add: createPrediction_def Let_def mock_db_def p' validate_string_flag
          predict_failing fallback_string_flag)
  show ?thesis
    by (intro conjI a b c d e b' f)
qed

text \<open>
  Claim C1, amended. For every valid input (one the validation reports no error for), if
  the inference service fails (either call throws) and the store step does not fail (the
  store is not connected, or it is connected and accepts the write), \<^verbatim>\<open>createPrediction\<close>
  responds 201 with status success, the payload as received and a fallback result: its
  prediction is one of the two labels, its risk score is the random number drawn, in
  \<open>[0, 1]\<close> as \<^verbatim>\<open>Math.random()\<close> is, its five factors carry one of their two labels each,
  following the threshold rules for every member that is given as a JSON number or a JSON
  boolean or is omitted, and the static recommendations are attached.
\<close>

theorem create_fallback:
  assumes valid: "joi predictionValidation (payload req) = Inr v"
      and fails: "makePrediction svc (payload req) = Inl err
                  \<or> (\<exists>r. makePrediction svc (payload req) = Inr r
                          \<and> getRecommendations svc r = Inl err)"
      and rnd: "0 \<le> mathRandom e 1" "mathRandom e 1 < 1"
      and store: "readyState db \<noteq> 1 \<or> fault db = None"
  shows "\<exists>m i t pr rs bg hb bm hy hd.
           fst (createPrediction joi svc e db req) =
             \<lparr>code = 201, status = ''success'', message = Some m,
              data = Some (CreatedData i (payload req)
                       \<lparr>prediction = pr, riskScore = rs,
                        factors = [(''bloodGlucoseLevel'', bg), (''hbA1cLevel'', hb),
                                   (''bmi'', bm), (''hypertension'', hy),
                                   (''heartDisease'', hd)],
                        recommendations = Some static_recommendations\<rparr> t)\<rparr>
         \<and> (pr = ''High Risk'' \<or> pr = ''Low Risk'')
         \<and> 0 \<le> rs \<and> rs \<le> 1
         \<and> (bg = ''High'' \<or> bg = ''Normal'')
         \<and> (hb = ''Elevated'' \<or> hb = ''Normal'')
         \<and> (bm = ''Overweight'' \<or> bm = ''Normal'')
         \<and> (hy = ''Present'' \<or> hy = ''Absent'')
         \<and> (hd = ''Present'' \<or> hd = ''Absent'')
         \<and> level_rule (get_prop (payload req) ''bloodGlucoseLevel'') 140 ''High'' ''Normal'' bg
         \<and> level_rule (get_prop (payload req) ''hbA1cLevel'') 6.5 ''Elevated'' ''Normal'' hb
         \<and> level_rule (get_prop (payload req) ''bmi'') 25 ''Overweight'' ''Normal'' bm
         \<and> flag_rule (get_prop (payload req) ''hypertension'') hy
         \<and> flag_rule (get_prop (payload req) ''heartDisease'') hd"
proof -
  let ?inp = "payload req"
  let ?sn = "stringToNumber e"
  let ?bg = "if js_gt ?sn (get_prop ?inp ''bloodGlucoseLevel'') 140 then ''High'' else ''Normal''"
  let ?hb = "if js_gt ?sn (get_prop ?inp ''hbA1cLevel'') 6.5 then ''Elevated'' else ''Normal''"
  let ?bm = "if js_gt ?sn (get_prop ?inp ''bmi'') 25 then ''Overweight'' else ''Normal''"
  let ?hy = "if truthy (get_prop ?inp ''hypertension'') then ''Present'' else ''Absent''"
  let ?hd = "if truthy (get_prop ?inp ''heartDisease'') then ''Present'' else ''Absent''"
  let ?pr = "if 0.5 < mathRandom e 0 then ''High Risk'' else ''Low Risk''"
  have p: "predict svc e ?inp = fallback_result e ?inp"
    using predict_fallback [OF fails] .
  have fb: "fallback_result e ?inp =
              \<lparr>prediction = ?pr, riskScore = mathRandom e 1,
               factors = [(''bloodGlucoseLevel'', ?bg), (''hbA1cLevel'', ?hb), (''bmi'', ?bm),
                          (''hypertension'', ?hy), (''heartDisease'', ?hd)],
               recommendations = Some static_recommendations\<rparr>"
    by (simp add: fallback_result_def)
  have resp: "\<exists>m i t. fst (createPrediction joi svc e db req) =
             \<lparr>code = 201, status = ''success'', message = Some m,
              data = Some (CreatedData i ?inp (fallback_result e ?inp) t)\<rparr>"
  proof (cases "readyState db \<noteq> 1")
    case True
    with valid p show ?thesis
      by (simp add: createPrediction_def Let_def)
  next
    case False
    with store have "fault db = None" by simp
    with False valid p show ?thesis
      by (simp add: createPrediction_def Let_def save_def newPrediction_def)
  qed
  then obtain m i t where
    r: "fst (createPrediction joi svc e db req) =
             \<lparr>code = 201, status = ''success'', message = Some m,
              data = Some (CreatedData i ?inp
                       \<lparr>prediction = ?pr, riskScore = mathRandom e 1,
                        factors = [(''bloodGlucoseLevel'', ?bg), (''hbA1cLevel'', ?hb),
                                   (''bmi'', ?bm), (''hypertension'', ?hy),
                                   (''heartDisease'', ?hd)],
                        recommendations = Some static_recommendations\<rparr> t)\<rparr>"
    unfolding fb by (elim exE)
  have l1: "?pr = ''High Risk'' \<or> ?pr = ''Low Risk''" by simp
  have l2: "0 \<le> mathRandom e 1" and l3: "mathRandom e 1 \<le> 1" using rnd by simp_all
  have l4: "?bg = ''High'' \<or> ?bg = ''Normal''" by simp
  have l5: "?hb = ''Elevated'' \<or> ?hb = ''Normal''" by simp
  have l6: "?bm = ''Overweight'' \<or> ?bm = ''Normal''" by simp
  have l7: "?hy = ''Present'' \<or> ?hy = ''Absent''" by simp
  have l8: "?hd = ''Present'' \<or> ?hd = ''Absent''" by simp
  show ?thesis
    by (intro exI conjI, rule r, rule l1, rule l2, rule l3, rule l4, rule l5, rule l6,
        rule l7, rule l8, rule level_rule_js_gt, rule level_rule_js_gt, rule level_rule_js_gt,
        rule flag_rule_truthy, rule flag_rule_truthy)
qed

lemma fallback_full:
  "fallback_result sample_env full_payload =
     \<lparr>prediction = ''Low Risk'', riskScore = 1 / 4,
      factors = [(''bloodGlucoseLevel'', ''High''), (''hbA1cLevel'', ''Normal''),
                 (''bmi'', ''Overweight''), (''hypertension'', ''Present''),
                 (''heartDisease'', ''Absent'')],
      recommendations = Some static_recommendations\<rparr>"
  by (simp add: fallback_result_def sample_env_def full_payload_def get_prop_def js_gt_def
        to_number_def truthy_def)

theorem create_fallback_witness:
  "validate Release16 no_numeric_string predictionValidation (payload full_request) = Inr full_payload
   \<and> makePrediction failing_service (payload full_request) = Inl ''model not loaded''
   \<and> 0 \<le> mathRandom sample_env 1 \<and> mathRandom sample_env 1 < 1
   \<and> fault live_db = None
   \<and> (\<exists>m i t.
        fst (createPrediction (validate Release16 no_numeric_string) failing_service sample_env live_db
               full_request) =
          \<lparr>code = 201, status = ''success'', message = Some m,
           data = Some (CreatedData i full_payload
                    \<lparr>prediction = ''Low Risk'', riskScore = 1 / 4,
                     factors = [(''bloodGlucoseLevel'', ''High''), (''hbA1cLevel'', ''Normal''),
                                (''bmi'', ''Overweight''), (''hypertension'', ''Present''),
                                (''heartDisease'', ''Absent'')],
                     recommendations = Some static_recommendations\<rparr> t)\<rparr>)"
proof -
  let ?joi = "validate Release16 no_numeric_string"
  have p: "payload full_request = full_payload" by (simp add: full_request_def)
  have v: "?joi predictionValidation (payload full_request) = Inr full_payload"
    by (simp add: p validate_full)
  have f: "makePrediction failing_service (payload full_request) = Inl ''model not loaded''"
    by (simp add: failing_service_def)
  have f': "makePrediction failing_service (payload full_request) = Inl ''model not loaded''
            \<or> (\<exists>r. makePrediction failing_service (payload full_request) = Inr r
                    \<and> getRecommendations failing_service r = Inl ''model not loaded'')"
    using f by simp
  have r0: "0 \<le> mathRandom sample_env 1" and r1: "mathRandom sample_env 1 < 1"
    by (simp_all add: sample_env_def)
  have s: "fault live_db = None" by (simp add: live_db_def)
  then have s': "readyState live_db \<noteq> 1 \<or> fault live_db = None" by simp
  have g: "get_prop full_payload ''bloodGlucoseLevel'' = Some (JNum 150)"
      "get_prop full_payload ''hbA1cLevel'' = Some (JNum 6.5)"
      "get_prop full_payload ''bmi'' = Some (JNum 31)"
      "get_prop full_payload ''hypertension'' = Some (JBool True)"
      "get_prop full_payload ''heartDisease'' = Some (JBool False)"
    by (simp_all add: full_payload_def get_prop_def)
  from create_fallback [of ?joi full_request full_payload failing_service
         "''model not loaded''" sample_env live_db, OF v f' r0 r1 s']
  obtain m i t pr rs bg hb bm hy hd where
    resp: "fst (createPrediction ?joi failing_service sample_env live_db full_request) =
             \<lparr>code = 201, status = ''success'', message = Some m,
              data = Some (CreatedData i (payload full_request)
                       \<lparr>prediction = pr, riskScore = rs,
                        factors = [(''bloodGlucoseLevel'', bg), (''hbA1cLevel'', hb),
                                   (''bmi'', bm), (''hypertension'', hy),
                                   (''heartDisease'', hd)],
                        recommendations = Some static_recommendations\<rparr> t)\<rparr>"
    and rules: "level_rule (get_prop (payload full_request) ''bloodGlucoseLevel'') 140
                  ''High'' ''Normal'' bg"
      "level_rule (get_prop (payload full_request) ''hbA1cLevel'') 6.5 ''Elevated'' ''Normal'' hb"
      "level_rule (get_prop (payload full_request) ''bmi'') 25 ''Overweight'' ''Normal'' bm"
      "flag_rule (get_prop (payload full_request) ''hypertension'') hy"
      "flag_rule (get_prop (payload full_request) ''heartDisease'') hd"
    by (elim exE conjE)
  from rules have labels: "bg = ''High''" "hb = ''Normal''" "bm = ''Overweight''"
      "hy = ''Present''" "hd = ''Absent''"
    by (simp_all add: p g level_rule_def flag_rule_def)
  have pr: "pr = ''Low Risk''" and rs: "rs = 1 / 4"
    using resp v
    by (simp_all add: createPrediction_def Let_def live_db_def save_def newPrediction_def
          predict_failing fallback_full p)
  from resp have "\<exists>m i t.
        fst (createPrediction ?joi failing_service sample_env live_db full_request) =
          \<lparr>code = 201, status = ''success'', message = Some m,
           data = Some (CreatedData i full_payload
                    \<lparr>prediction = ''Low Risk'', riskScore = 1 / 4,
                     factors = [(''bloodGlucoseLevel'', ''High''), (''hbA1cLevel'', ''Normal''),
                                (''bmi'', ''Overweight''), (''hypertension'', ''Present''),
                                (''heartDisease'', ''Absent'')],
                     recommendations = Some static_recommendations\<rparr> t)\<rparr>"
    by (simp add: labels pr rs p)
  with v f r0 r1 s show ?thesis by (intro conjI)
qed

section \<open>Degraded mode: the store is not connected\<close>

text \<open>The decimal rendering of an integer is its decimal numeral.\<close>

lemma digit_char_value:
  assumes "0 \<le> d" and "d < 10"
  shows "hex_val (digit_char d) = Some d"
proof -
  from assms have "d = 0 \<or> d = 1 \<or> d = 2 \<or> d = 3 \<or> d = 4 \<or> d = 5 \<or> d = 6 \<or> d = 7
                   \<or> d = 8 \<or> d = 9"
    by arith
  then show ?thesis
    by (elim disjE) (simp_all add: digit_char_def hex_val_def)
qed

lemma digit_char_zero:
  assumes "0 < d" and "d < 10"
  shows "digit_char d \<noteq> CHR ''0''"
  using assms by (simp add: digit_char_def)

lemma digits_value_snoc:
  "digits_value r (ds @ [c]) = r * digits_value r ds + (case hex_val c of None \<Rightarrow> 0 | Some d \<Rightarrow> d)"
  by (simp add: digits_value_def)

lemma digits10_numeral:
  "0 \<le> n \<Longrightarrow>
     digits10 n \<noteq> [] \<and> list_all (is_radix_digit 10) (digits10 n)
     \<and> digits_value 10 (digits10 n) = n
     \<and> (0 < n \<longrightarrow> hd (digits10 n) \<noteq> CHR ''0'')
     \<and> (n < 10 \<longrightarrow> length (digits10 n) = 1)"
proof (induction n rule: digits10.induct)
  case (1 n)
  show ?case
  proof (cases "n < 10")
    case True
    have d: "digits10 n = [digit_char n]"
      using True by (simp add: digits10.simps)
    from 1(2) True show ?thesis
      by (simp add: d digit_char_value is_radix_digit_def digits_value_def digit_char_zero)
  next
    case False
    have d: "digits10 n = digits10 (n div 10) @ [digit_char (n mod 10)]"
      using False by (subst digits10.simps) simp
    from False 1(2) have q: "0 \<le> n div 10" and q': "0 < n div 10" by simp_all
    from 1(1) [OF False q]
    have ih: "digits10 (n div 10) \<noteq> []" "list_all (is_radix_digit 10) (digits10 (n div 10))"
        "digits_value 10 (digits10 (n div 10)) = n div 10"
        "hd (digits10 (n div 10)) \<noteq> CHR ''0''"
      using q' by simp_all
    have m: "0 \<le> n mod 10" "n mod 10 < 10" by simp_all
    have v: "hex_val (digit_char (n mod 10)) = Some (n mod 10)"
      using digit_char_value [OF m] .
    have r: "is_radix_digit 10 (digit_char (n mod 10))"
      using m by (simp add: is_radix_digit_def v)
    from ih v r False show ?thesis
      by (simp add: d digits_value_snoc)
  qed
qed

lemma decimal_show_int: "decimal_of n (show_int n)"
proof (cases "n < 0")
  case True
  then have "0 \<le> - n" and "0 < - n" by simp_all
  with digits10_numeral [of "- n"] True show ?thesis
    by (auto simp: decimal_of_def show_int_def numeral_of_def)
next
  case False
  then have "0 \<le> n" by simp
  with digits10_numeral [of n] False show ?thesis
    by (cases "n = 0") (auto simp: decimal_of_def show_int_def numeral_of_def)
qed

text \<open>
  Claim C9. When the store is unavailable, \<^verbatim>\<open>createPrediction\<close> on a valid payload (one
  the validation reports no error for) responds 201 with the annotated message and an
  envelope made of the id \<^verbatim>\<open>mock-\<close> followed by the decimal numeral of the clock reading,
  the payload as received, the computed result (the service's result with its
  recommendations, or the fallback) and the clock reading as \<open>createdAt\<close>; the store is
  returned as it was, whatever its content.
\<close>

theorem create_mock:
  assumes "joi predictionValidation (payload req) = Inr v"
      and "readyState db \<noteq> 1"
  shows "\<exists>ts. createPrediction joi svc e db req =
           (\<lparr>code = 201, status = ''success'',
             message = Some ''Prediction created successfully (MOCK - No DB)'',
             data = Some (CreatedData (''mock-'' @ ts) (payload req)
                            (predict svc e (payload req)) (dateNow e 1))\<rparr>, db)
              \<and> decimal_of (dateNow e 0) ts"
proof (intro exI conjI)
  show "createPrediction joi svc e db req =
           (\<lparr>code = 201, status = ''success'',
             message = Some ''Prediction created successfully (MOCK - No DB)'',
             data = Some (CreatedData (''mock-'' @ show_int (dateNow e 0)) (payload req)
                            (predict svc e (payload req)) (dateNow e 1))\<rparr>, db)"
    using assms by (simp add: createPrediction_def Let_def)
  show "decimal_of (dateNow e 0) (show_int (dateNow e 0))"
    by (rule decimal_show_int)
qed

theorem create_mock_witness:
  "validate Release16 no_numeric_string predictionValidation (payload sample_request)
     = Inr (sample_payload @ [(''hypertension'', JBool False)])
   \<and> readyState mock_db \<noteq> 1
   \<and> dateNow sample_env 0 = 1730000000000
   \<and> decimal_of 1730000000000 ''1730000000000''
   \<and> createPrediction (validate Release16 no_numeric_string) failing_service sample_env mock_db
         sample_request =
           (\<lparr>code = 201, status = ''success'',
             message = Some ''Prediction created successfully (MOCK - No DB)'',
             data = Some (CreatedData ''mock-1730000000000'' sample_payload
                            (fallback_result sample_env sample_payload) 1730000000001)\<rparr>,
            mock_db)"
proof -
  let ?joi = "validate Release16 no_numeric_string"
  have v: "?joi predictionValidation (payload sample_request)
             = Inr (sample_payload @ [(''hypertension'', JBool False)])"
    by (simp add: sample_request_def validate_sample)
  have r: "readyState mock_db \<noteq> 1" by (simp add: mock_db_def)
  have p: "payload sample_request = sample_payload" by (simp add: sample_request_def)
  have d0: "dateNow sample_env 0 = 1730000000000"
    and d1: "dateNow sample_env (Suc 0) = 1730000000001"
    by (simp_all add: sample_env_def)
  from create_mock [of ?joi sample_request _ mock_db failing_service sample_env, OF v r]
  obtain ts where
    c: "createPrediction ?joi failing_service sample_env mock_db sample_request =
           (\<lparr>code = 201, status = ''success'',
             message = Some ''Prediction created successfully (MOCK - No DB)'',
             data = Some (CreatedData (''mock-'' @ ts) (payload sample_request)
                            (predict failing_service sample_env (payload sample_request))
                            (dateNow sample_env 1))\<rparr>, mock_db)"
    and t: "decimal_of (dateNow sample_env 0) ts"
    by (elim exE conjE)
  have "createPrediction ?joi failing_service sample_env mock_db sample_request =
           (\<lparr>code = 201, status = ''success'',
             message = Some ''Prediction created successfully (MOCK - No DB)'',
             data = Some (CreatedData (''mock-'' @ show_int (dateNow sample_env 0))
                            (payload sample_request)
                            (predict failing_service sample_env (payload sample_request))
                            (dateNow sample_env 1))\<rparr>, mock_db)"
    using v r by (simp add: createPrediction_def Let_def)
  with c have ts: "ts = ''1730000000000''"
    by (simp add: d0 show_int_sample)
  from t have dec: "decimal_of 1730000000000 ''1730000000000''"
    by (simp add: ts d0)
  from c have resp: "createPrediction ?joi failing_service sample_env mock_db sample_request =
           (\<lparr>code = 201, status = ''success'',
             message = Some ''Prediction created successfully (MOCK - No DB)'',
             data = Some (CreatedData ''mock-1730000000000'' sample_payload
                            (fallback_result sample_env sample_payload) 1730000000001)\<rparr>,
            mock_db)"
    by (simp add: ts p d1 predict_failing)
  show ?thesis
    by (intro conjI v r d0 dec resp)
qed

text \<open>
  Claim C4. When the store is unavailable, \<^verbatim>\<open>getPredictionHistory\<close> responds 200 with
  exactly five synthesized records and the pagination \<open>total = 5, page = 1, limit = 10,
  pages = 1\<close>, whatever page and limit the request asks for. Record \<open>i\<close> is dated \<open>i\<close> days
  before the clock reading taken for it (readings 1, 3, 5, 7 and 9 of the call), and every
  record carries the requesting user.
\<close>

theorem mock_history:
  assumes "readyState db \<noteq> 1"
  shows "\<exists>ps. getPredictionHistory e db req =
            (\<lparr>code = 200, status = ''success'', message = None,
              data = Some (HistoryData ps
                       \<lparr>pg_total = Fin 5, pg_page = Fin 1, pg_limit = Fin 10,
                        pg_pages = Fin 1\<rparr>)\<rparr>, db)
          \<and> length ps = 5
          \<and> map createdAt ps =
              [dateNow e 1, dateNow e 3 - 86400000, dateNow e 5 - 2 * 86400000,
               dateNow e 7 - 3 * 86400000, dateNow e 9 - 4 * 86400000]
          \<and> map user ps = replicate 5 (auth_id req)"
proof -
  have five: "[0..<5] = [0, 1, 2, 3, 4]" by (simp add: upt_rec)
  show ?thesis
    using assms
    by (simp add: getPredictionHistory_def Let_def five mockPredictionAt_def day_ms_def
          numeral_eq_Suc)
qed

theorem mock_history_witness:
  "readyState mock_db \<noteq> 1
   \<and> code (fst (getPredictionHistory sample_env mock_db sample_request)) = 200
   \<and> length (history_items (fst (getPredictionHistory sample_env mock_db sample_request))) = 5
   \<and> map createdAt (history_items (fst (getPredictionHistory sample_env mock_db sample_request)))
       = [1730000000001, 1729913600003, 1729827200005, 1729740800007, 1729654400009]
   \<and> history_pagination (fst (getPredictionHistory sample_env mock_db sample_request))
       = Some \<lparr>pg_total = Fin 5, pg_page = Fin 1, pg_limit = Fin 10, pg_pages = Fin 1\<rparr>
   \<and> snd (getPredictionHistory sample_env mock_db sample_request) = mock_db"
proof -
  have r: "readyState mock_db \<noteq> 1" by (simp add: mock_db_def)
  from mock_history [OF r, of sample_env sample_request]
  obtain ps where
    h: "getPredictionHistory sample_env mock_db sample_request =
            (\<lparr>code = 200, status = ''success'', message = None,
              data = Some (HistoryData ps
                       \<lparr>pg_total = Fin 5, pg_page = Fin 1, pg_limit = Fin 10,
                        pg_pages = Fin 1\<rparr>)\<rparr>, mock_db)"
    and l: "length ps = 5"
    and c: "map createdAt ps =
              [dateNow sample_env 1, dateNow sample_env 3 - 86400000,
               dateNow sample_env 5 - 2 * 86400000, dateNow sample_env 7 - 3 * 86400000,
               dateNow sample_env 9 - 4 * 86400000]"
    by (elim exE conjE)
  have "map createdAt ps
          = [1730000000001, 1729913600003, 1729827200005, 1729740800007, 1729654400009]"
    unfolding c by (simp add: sample_env_def)
  with r h l show ?thesis
    by (simp add: history_items_def history_pagination_def)
qed

text \<open>
  Claim C2, as stated, fails: with the store unavailable the response of
  \<^verbatim>\<open>getPredictionHistory\<close> carries no message at all, hence no marker.
\<close>

theorem mock_list_has_no_marker:
  "readyState mock_db \<noteq> 1
   \<and> code (fst (getPredictionHistory sample_env mock_db sample_request)) = 200
   \<and> message (fst (getPredictionHistory sample_env mock_db sample_request)) = None
   \<and> \<not> has_mock_marker (fst (getPredictionHistory sample_env mock_db sample_request))"
  by (simp add: mock_db_def getPredictionHistory_def Let_def has_mock_marker_def)

text \<open>
  Claim C2, amended. With the store unavailable, the success responses that carry a
  message, those of \<^verbatim>\<open>createPrediction\<close> on a valid payload (one the validation reports no
  error for) and of \<^verbatim>\<open>deletePrediction\<close> on an accepted id, carry the marker
  \<^verbatim>\<open>(MOCK - No DB)\<close> in it; the responses of \<^verbatim>\<open>getPredictionHistory\<close> and of
  \<^verbatim>\<open>getPredictionById\<close> on an accepted id carry no message.
\<close>

theorem mock_marker:
  assumes "readyState db \<noteq> 1"
  shows "(joi predictionValidation (payload req) = Inr v
            \<longrightarrow> has_mock_marker (fst (createPrediction joi svc e db req)))
       \<and> (mock_id_accepted (params_id req)
            \<longrightarrow> has_mock_marker (fst (deletePrediction db req))
              \<and> message (fst (getPredictionById e db req)) = None)
       \<and> message (fst (getPredictionHistory e db req)) = None"
  using assms marker_create marker_delete
  by (simp add: createPrediction_def deletePrediction_def getPredictionById_def
        getPredictionHistory_def Let_def has_mock_marker_def mock_id_accepted_def)

theorem mock_marker_witness:
  "readyState mock_db \<noteq> 1
   \<and> validate Release16 no_numeric_string predictionValidation (payload sample_request)
       = Inr (sample_payload @ [(''hypertension'', JBool False)])
   \<and> mock_id_accepted (params_id sample_request)
   \<and> has_mock_marker (fst (createPrediction (validate Release16 no_numeric_string) failing_service
                              sample_env mock_db sample_request))
   \<and> has_mock_marker (fst (deletePrediction mock_db sample_request))
   \<and> message (fst (getPredictionById sample_env mock_db sample_request)) = None
   \<and> message (fst (getPredictionHistory sample_env mock_db sample_request)) = None"
proof -
  have r: "readyState mock_db \<noteq> 1" by (simp add: mock_db_def)
  have v: "validate Release16 no_numeric_string predictionValidation (payload sample_request)
             = Inr (sample_payload @ [(''hypertension'', JBool False)])"
    by (simp add: sample_request_def validate_sample)
  have a: "mock_id_accepted (params_id sample_request)"
    by (simp add: sample_request_def accepted_mock_1)
  show ?thesis
    using r v a
      mock_marker [OF r, of "validate Release16 no_numeric_string" sample_request _ failing_service
        sample_env]
    by simp
qed

text \<open>
  Claim C5, as stated, fails in one part: the record \<^verbatim>\<open>getPredictionById\<close> returns on the
  mock path is not the same for every accepted id, since its \<open>_id\<close> is the requested id.
\<close>

theorem mock_record_echoes_id:
  "readyState mock_db \<noteq> 1
   \<and> mock_id_accepted ''mock-1'' \<and> mock_id_accepted ''mock-2''
   \<and> fst (getPredictionById sample_env mock_db (sample_request\<lparr>params_id := ''mock-1''\<rparr>))
       \<noteq> fst (getPredictionById sample_env mock_db (sample_request\<lparr>params_id := ''mock-2''\<rparr>))"
  by (simp add: mock_db_def mock_id_accepted_def startsWith_def getPredictionById_def Let_def
        sample_request_def)

text \<open>
  Claim C5, amended. With the store unavailable, \<^verbatim>\<open>getPredictionById\<close> and
  \<^verbatim>\<open>deletePrediction\<close> respond 200 when the id starts with \<^verbatim>\<open>mock-\<close> or is the sentinel id,
  and 404 with the message \<^verbatim>\<open>Prediction not found\<close> otherwise. On acceptance the record
  returned has the requested id as its \<open>_id\<close>, the requesting user, the clock reading as
  \<open>createdAt\<close>, and an \<open>inputData\<close> and a \<open>result\<close> that are the same for every accepted id;
  the deletion is acknowledged and the store is returned as it was.
\<close>

theorem mock_get_delete:
  assumes "readyState db \<noteq> 1"
  shows "(mock_id_accepted (params_id req) \<longrightarrow>
            getPredictionById e db req =
              (\<lparr>code = 200, status = ''success'', message = None,
                data = Some (PredictionData
                         \<lparr>doc_id = params_id req, inputData = canned_inputData,
                          result = canned_result, createdAt = dateNow e 0,
                          user = auth_id req\<rparr>)\<rparr>, db)
          \<and> deletePrediction db req =
              (\<lparr>code = 200, status = ''success'',
                message = Some ''Prediction deleted successfully (MOCK - No DB)'',
                data = None\<rparr>, db))
       \<and> (\<not> mock_id_accepted (params_id req) \<longrightarrow>
            getPredictionById e db req = (error_response 404 ''Prediction not found'', db)
          \<and> deletePrediction db req = (error_response 404 ''Prediction not found'', db))"
  using assms
  by (simp add: getPredictionById_def deletePrediction_def Let_def mock_id_accepted_def
        canned_inputData_def canned_result_def)

theorem mock_get_delete_witness:
  "readyState mock_db \<noteq> 1
   \<and> mock_id_accepted (params_id sample_request)
   \<and> code (fst (getPredictionById sample_env mock_db sample_request)) = 200
   \<and> code (fst (deletePrediction mock_db sample_request)) = 200
   \<and> snd (deletePrediction mock_db sample_request) = mock_db
   \<and> \<not> mock_id_accepted (params_id (sample_request\<lparr>params_id := ''abc''\<rparr>))
   \<and> code (fst (getPredictionById sample_env mock_db (sample_request\<lparr>params_id := ''abc''\<rparr>))) = 404
   \<and> code (fst (deletePrediction mock_db (sample_request\<lparr>params_id := ''abc''\<rparr>))) = 404"
proof -
  have r: "readyState mock_db \<noteq> 1" by (simp add: mock_db_def)
  have a: "mock_id_accepted (params_id sample_request)"
    by (simp add: sample_request_def accepted_mock_1)
  have b: "\<not> mock_id_accepted (params_id (sample_request\<lparr>params_id := ''abc''\<rparr>))"
    by (simp add: mock_id_accepted_def startsWith_def)
  show ?thesis
    using r a b mock_get_delete [OF r, of sample_request sample_env]
      mock_get_delete [OF r, of "sample_request\<lparr>params_id := ''abc''\<rparr>" sample_env]
    by (simp add: error_response_def)
qed

section \<open>The store is connected\<close>

text \<open>
  Claim C6, as stated, fails: a store that is connected but whose lookup is rejected makes
  both \<^verbatim>\<open>getPredictionById\<close> and \<^verbatim>\<open>deletePrediction\<close> answer 500 with the store's error,
  for a request under whose id and identity no record exists.
\<close>

theorem rejected_lookup_is_500:
  "readyState unreachable_db = 1
   \<and> \<not> list_ex (matches (params_id bob_request) (auth_id bob_request)) (docs unreachable_db)
   \<and> getPredictionById sample_env unreachable_db bob_request
       = (\<lparr>code = 500, status = ''error'', message = Some ''connection lost'', data = None\<rparr>,
          unreachable_db)
   \<and> deletePrediction unreachable_db bob_request
       = (\<lparr>code = 500, status = ''error'', message = Some ''connection lost'', data = None\<rparr>,
          unreachable_db)"
  by (simp add: unreachable_db_def bob_request_def alice_doc_def matches_def
        getPredictionById_def deletePrediction_def Let_def findOne_def findOneAndDelete_def
        error_response_def)

text \<open>
  Claim C6, amended. When the store is available and answers the lookup, a request for an
  id under which no record of the requesting user exists gets 404 from both
  \<^verbatim>\<open>getPredictionById\<close> and \<^verbatim>\<open>deletePrediction\<close>, and the store is left as it was. So,
  ids being unique, deleting the same id a second time gives 404, and a record of another
  user can be neither read nor deleted: it stays in the store.
\<close>

theorem absent_or_foreign_is_404:
  assumes "readyState db = 1" and "fault db = None"
  shows "(\<not> list_ex (matches (params_id req) (auth_id req)) (docs db) \<longrightarrow>
            getPredictionById e db req = (error_response 404 ''Prediction not found'', db)
          \<and> deletePrediction db req =
              (error_response 404
                 ''Prediction not found or you don't have permission to delete it'', db))
       \<and> (distinct (map doc_id (docs db)) \<longrightarrow>
            code (fst (deletePrediction (snd (deletePrediction db req)) req)) = 404
          \<and> code (fst (getPredictionById e (snd (deletePrediction db req)) req)) = 404)
       \<and> (distinct (map doc_id (docs db)) \<and> d \<in> set (docs db)
            \<and> doc_id d = params_id req \<and> user d \<noteq> auth_id req \<longrightarrow>
            code (fst (getPredictionById e db req)) = 404
          \<and> code (fst (deletePrediction db req)) = 404
          \<and> snd (deletePrediction db req) = db)"
proof (intro conjI impI)
  assume n: "\<not> list_ex (matches (params_id req) (auth_id req)) (docs db)"
  show "getPredictionById e db req = (error_response 404 ''Prediction not found'', db)"
    using get_absent [OF assms n] .
  show "deletePrediction db req =
          (error_response 404
             ''Prediction not found or you don't have permission to delete it'', db)"
    using delete_absent [OF assms n] .
next
  assume dist: "distinct (map doc_id (docs db))"
  let ?db = "snd (deletePrediction db req)"
  have st: "?db = db\<lparr>docs := remove_first (matches (params_id req) (auth_id req)) (docs db)\<rparr>"
    using delete_state [OF assms] .
  have r: "readyState ?db = 1" and f: "fault ?db = None"
    using assms by (simp_all add: st)
  have n: "\<not> list_ex (matches (params_id req) (auth_id req)) (docs ?db)"
    using matches_gone [OF dist] by (simp add: st)
  show "code (fst (deletePrediction ?db req)) = 404"
    using delete_absent [OF r f n] by (simp add: error_response_def)
  show "code (fst (getPredictionById e ?db req)) = 404"
    using get_absent [OF r f n] by (simp add: error_response_def)
next
  assume h: "distinct (map doc_id (docs db)) \<and> d \<in> set (docs db)
               \<and> doc_id d = params_id req \<and> user d \<noteq> auth_id req"
  have "\<not> matches (params_id req) (auth_id req) x" if x: "x \<in> set (docs db)" for x
  proof
    assume "matches (params_id req) (auth_id req) x"
    then have "doc_id x = doc_id d" and u: "user x = auth_id req"
      using h by (simp_all add: matches_def)
    with h x have "x = d"
      by (meson distinct_map inj_onD)
    with u h show False by simp
  qed
  then have n: "\<not> list_ex (matches (params_id req) (auth_id req)) (docs db)"
    by (simp add: list_ex_iff)
  show "code (fst (getPredictionById e db req)) = 404"
    using get_absent [OF assms n] by (simp add: error_response_def)
  show "code (fst (deletePrediction db req)) = 404"
    using delete_absent [OF assms n] by (simp add: error_response_def)
  show "snd (deletePrediction db req) = db"
    using delete_absent [OF assms n] by simp
qed

theorem absent_or_foreign_is_404_witness:
  "readyState live_db = 1 \<and> fault live_db = None
   \<and> \<not> list_ex (matches (params_id bob_request) (auth_id bob_request)) (docs live_db)
   \<and> distinct (map doc_id (docs live_db))
   \<and> alice_doc \<in> set (docs live_db)
   \<and> doc_id alice_doc = params_id bob_request
   \<and> user alice_doc \<noteq> auth_id bob_request
   \<and> getPredictionById sample_env live_db bob_request
       = (error_response 404 ''Prediction not found'', live_db)
   \<and> deletePrediction live_db bob_request
       = (error_response 404
            ''Prediction not found or you don't have permission to delete it'', live_db)
   \<and> code (fst (deletePrediction live_db alice_request)) = 200
   \<and> code (fst (deletePrediction (snd (deletePrediction live_db alice_request))
                  alice_request)) = 404
   \<and> code (fst (getPredictionById sample_env (snd (deletePrediction live_db alice_request))
                  alice_request)) = 404"
proof -
  have r: "readyState live_db = 1" and f: "fault live_db = None"
    by (simp_all add: live_db_def)
  have n: "\<not> list_ex (matches (params_id bob_request) (auth_id bob_request)) (docs live_db)"
    by (simp add: live_db_def bob_request_def alice_doc_def matches_def)
  have dist: "distinct (map doc_id (docs live_db))"
    by (simp add: live_db_def)
  have m: "alice_doc \<in> set (docs live_db)" by (simp add: live_db_def)
  have i: "doc_id alice_doc = params_id bob_request"
    by (simp add: alice_doc_def bob_request_def)
  have u: "user alice_doc \<noteq> auth_id bob_request"
    by (simp add: alice_doc_def bob_request_def)
  have first: "code (fst (deletePrediction live_db alice_request)) = 200"
    by (simp add: deletePrediction_def Let_def findOneAndDelete_def live_db_def
          alice_request_def alice_doc_def matches_def)
  show ?thesis
    using r f n dist m i u first
      absent_or_foreign_is_404 [OF r f, of bob_request sample_env alice_doc]
      absent_or_foreign_is_404 [OF r f, of alice_request sample_env alice_doc]
    by simp
qed

section \<open>Listing the history\<close>

lemma set_newest_first: "set (newest_first ds) = set ds"
  by (simp add: newest_first_def)

lemma length_newest_first: "length (newest_first ds) = length ds"
  by (simp add: newest_first_def)

lemma sorted_newest_first: "sorted_wrt (\<lambda>a b. createdAt b \<le> createdAt a) (newest_first ds)"
proof -
  have "sorted (map (\<lambda>d. - createdAt d) (newest_first ds))"
    by (simp add: newest_first_def)
  then show ?thesis
    by (simp add: sorted_map)
qed

lemma sorted_page:
  "sorted_wrt (\<lambda>a b. createdAt b \<le> createdAt a) (take n (drop m (newest_first ds)))"
  by (intro sorted_wrt_take sorted_wrt_drop sorted_newest_first)

lemma owned_page:
  "list_all (\<lambda>d. user d = uid) (take n (drop m (newest_first (owned_by uid ds))))"
proof -
  have "set (take n (drop m (newest_first (owned_by uid ds)))) \<subseteq> set (owned_by uid ds)"
    by (metis set_newest_first set_take_subset set_drop_subset subset_trans)
  then show ?thesis
    by (auto simp: list_all_iff owned_by_def)
qed

text \<open>Whole numbers, and the numbers \<^verbatim>\<open>parseInt\<close> gives.\<close>

lemma whole_Ints: "whole x = (x \<in> \<int>)"
proof
  assume "whole x"
  then have "x = of_int \<lfloor>x\<rfloor>" by (simp add: whole_def)
  then show "x \<in> \<int>" by (metis Ints_of_int)
next
  assume "x \<in> \<int>"
  then show "whole x" by (auto simp: whole_def elim: Ints_cases)
qed

lemma whole_of_int: "whole (of_int n)"
  by (simp add: whole_Ints)

lemma num_of_int_whole: "num_of_int n = Fin x \<Longrightarrow> whole x"
  unfolding num_of_int_def Let_def
  by (auto simp only: jsnum.inject jsnum.distinct whole_of_int split: if_splits)

lemma num_of_int_small: "\<bar>n\<bar> \<le> 2 ^ 53 \<Longrightarrow> num_of_int n = Fin (of_int n)"
  by (simp add: num_of_int_def Let_def)

lemma parseInt_or_whole:
  assumes "parseInt_or q (Fin d) = Fin x" and "whole d"
  shows "whole x"
proof (cases "parseInt_or q (Fin d) = Fin d")
  case True
  with assms show ?thesis by simp
next
  case False
  then obtain s where s: "q = Some s" "parseInt_or q (Fin d) = parseInt s"
    by (cases q) (auto simp: parseInt_or_def js_or_def split: if_splits)
  with assms(1) have "parseInt s = Fin x" by simp
  then show ?thesis
    by (auto simp: parseInt_def split: option.splits dest: num_of_int_whole)
qed

lemma as_count_whole:
  "whole x \<Longrightarrow> 0 \<le> x \<Longrightarrow> x \<le> 2 ^ 53 \<Longrightarrow> as_count (Fin x) = Some (nat \<lfloor>x\<rfloor>)"
  by (simp add: as_count_def)

lemma as_count_negative: "x < 0 \<Longrightarrow> as_count (Fin x) = None"
  by (simp add: as_count_def)

lemma parseInt_neg5: "parseInt ''-5'' = Fin (- 5)"
  by code_simp

lemma parseInt_1: "parseInt [CHR 0xA0, CHR ''1''] = Fin 1"
  by code_simp

lemma parseInt_reads:
  "parseInt ''9007199254740993'' = Fin 9007199254740992"
  "parseInt ''9007199254740995'' = Fin 9007199254740996"
  "parseInt '' -12abc'' = Fin (- 12)"
  "parseInt ''0x1A'' = Fin 26"
  "parseInt ''1e3'' = Fin 1"
  "parseInt ''-0'' = Fin 0"
  "parseInt [] = NaN"
  by code_simp+

lemma parseInt_2: "parseInt ''2'' = Fin 2"
  by code_simp

lemma parseInt_huge: "parseInt (replicate 400 (CHR ''9'')) = PInf"
  by code_simp

lemma ceil_div_exact:
  assumes "whole y" and "y \<noteq> 0" and "n < 2 ^ 53"
  shows "js_ceil_div rd (Fin (real n)) (Fin y) = Fin (of_int \<lceil>real n / y\<rceil>)"
proof -
  have "whole (real n)" by (simp add: whole_Ints)
  moreover from assms(3) have "real n < 2 ^ 53"
    by (metis of_nat_less_iff of_nat_numeral of_nat_power)
  ultimately show ?thesis
    using assms(1,2) by (simp add: js_ceil_div_def)
qed

lemma count_exact:
  assumes "n < 2 ^ 53"
  shows "num_of_int (int n) = Fin (real n)"
proof -
  from assms have "int n < 2 ^ 53"
    by (metis of_nat_less_iff of_nat_numeral of_nat_power)
  then show ?thesis by (simp add: num_of_int_small)
qed

text \<open>
  Claim C8, as stated, fails. With \<^verbatim>\<open>limit=-5\<close> the handler passes the negative limit on
  to the store: whatever the store makes of it, the response is either an error or a page
  that reports the limit \<open>-5\<close> and \<open>pages = 0\<close>, and that cannot hold at most \<open>-5\<close> records.
  With a limit of 400 digits the limit in effect is infinite and the number of records to
  skip is not a number.
\<close>

theorem negative_limit_returns_more:
  "readyState live_db = 1 \<and> fault live_db = None
   \<and> limit_of negative_limit_request = Fin (- 5)
   \<and> (\<forall>u. code (fst (getPredictionHistory sample_env (live_db\<lparr>unusual := u\<rparr>)
                       negative_limit_request)) = 500
          \<or> (\<exists>ps. fst (getPredictionHistory sample_env (live_db\<lparr>unusual := u\<rparr>)
                         negative_limit_request) =
                    \<lparr>code = 200, status = ''success'', message = None,
                     data = Some (HistoryData ps
                              \<lparr>pg_total = Fin 1, pg_page = Fin 1, pg_limit = Fin (- 5),
                               pg_pages = Fin 0\<rparr>)\<rparr>
                  \<and> \<not> real (length ps) \<le> - 5))
   \<and> limit_of huge_limit_request = PInf
   \<and> skip_of sample_env huge_limit_request = NaN"
proof -
  have r: "readyState live_db = 1" and f: "fault live_db = None"
    by (simp_all add: live_db_def)
  have l: "limit_of negative_limit_request = Fin (- 5)"
    by (simp add: limit_of_def negative_limit_request_def parseInt_or_def parseInt_neg5
          js_or_def)
  have p: "page_of negative_limit_request = Fin 1"
    by (simp add: page_of_def negative_limit_request_def parseInt_or_def js_or_def)
  have s: "skip_of sample_env negative_limit_request = Fin 0"
    by (simp add: skip_of_def l p js_round_def whole_def)
  have pages: "js_ceil_div (roundDouble sample_env) (Fin 1) (Fin (- 5)) = Fin 0"
    by (simp add: js_ceil_div_def whole_def ceiling_eq_iff)
  have total: "num_of_int 1 = Fin 1"
    by (simp add: num_of_int_def)
  have a: "auth_id negative_limit_request = ''alice''"
    by (simp add: negative_limit_request_def)
  have c0: "as_count (Fin 0) = Some 0"
    by (simp add: as_count_def whole_def)
  have any: "code (fst (getPredictionHistory sample_env (live_db\<lparr>unusual := u\<rparr>)
                       negative_limit_request)) = 500
          \<or> (\<exists>ps. fst (getPredictionHistory sample_env (live_db\<lparr>unusual := u\<rparr>)
                         negative_limit_request) =
                    \<lparr>code = 200, status = ''success'', message = None,
                     data = Some (HistoryData ps
                              \<lparr>pg_total = Fin 1, pg_page = Fin 1, pg_limit = Fin (- 5),
                               pg_pages = Fin 0\<rparr>)\<rparr>
                  \<and> \<not> real (length ps) \<le> - 5)" for u
  proof (cases "u (Fin 0) (Fin (- 5)) [alice_doc]")
    case (Inl err)
    then have "code (fst (getPredictionHistory sample_env (live_db\<lparr>unusual := u\<rparr>)
                       negative_limit_request)) = 500"
      by (simp add: getPredictionHistory_def Let_def l p s a find_sort_skip_limit_def
            c0 as_count_negative live_db_def owned_by_def newest_first_def alice_doc_def
            error_response_def)
    then show ?thesis by (rule disjI1)
  next
    case (Inr ps)
    then have "fst (getPredictionHistory sample_env (live_db\<lparr>unusual := u\<rparr>)
                         negative_limit_request) =
                    \<lparr>code = 200, status = ''success'', message = None,
                     data = Some (HistoryData ps
                              \<lparr>pg_total = Fin 1, pg_page = Fin 1, pg_limit = Fin (- 5),
                               pg_pages = Fin 0\<rparr>)\<rparr>"
      by (simp add: getPredictionHistory_def Let_def l p s a find_sort_skip_limit_def
            c0 as_count_negative live_db_def owned_by_def newest_first_def alice_doc_def
            countDocuments_def total pages)
    moreover have "\<not> real (length ps) \<le> - 5" by simp
    ultimately show ?thesis by blast
  qed
  have hl: "limit_of huge_limit_request = PInf"
    by (simp add: limit_of_def huge_limit_request_def parseInt_or_def parseInt_huge js_or_def)
  have hp: "page_of huge_limit_request = Fin 1"
    by (simp add: page_of_def huge_limit_request_def parseInt_or_def js_or_def)
  have hs: "skip_of sample_env huge_limit_request = NaN"
    by (simp add: skip_of_def hl hp js_round_def whole_def)
  from any have all: "\<forall>u. code (fst (getPredictionHistory sample_env (live_db\<lparr>unusual := u\<rparr>)
                       negative_limit_request)) = 500
          \<or> (\<exists>ps. fst (getPredictionHistory sample_env (live_db\<lparr>unusual := u\<rparr>)
                         negative_limit_request) =
                    \<lparr>code = 200, status = ''success'', message = None,
                     data = Some (HistoryData ps
                              \<lparr>pg_total = Fin 1, pg_page = Fin 1, pg_limit = Fin (- 5),
                               pg_pages = Fin 0\<rparr>)\<rparr>
                  \<and> \<not> real (length ps) \<le> - 5)"
    by (rule allI)
  show ?thesis
    by (intro conjI r f l all hl hs)
qed

text \<open>
  Claim C8, amended. When the store is available and answers the queries, and the page
  \<open>p\<close> and the limit \<open>l\<close> in effect (after \<^verbatim>\<open>parseInt\<close> and the defaults) are at least 1
  with \<open>p * l\<close> no more than \<open>2 ^ 53\<close>, \<^verbatim>\<open>getPredictionHistory\<close> responds 200 with the
  requesting user's records, newest first, without the first \<open>(p - 1) * l\<close> of them and cut
  to at most \<open>l\<close>, and with the pagination \<open>total\<close> (the number of the user's records, as a
  double), \<open>page\<close>, \<open>limit\<close> and \<open>pages\<close>, which is \<^verbatim>\<open>Math.ceil(total / limit)\<close> and, for
  fewer than \<open>2 ^ 53\<close> records, the ceiling of the exact quotient; the store is left as it
  was.
\<close>

theorem history_page:
  assumes "readyState db = 1" and "fault db = None"
      and "page_of req = Fin p" and "limit_of req = Fin l"
      and "1 \<le> p" and "1 \<le> l" and "p * l \<le> 2 ^ 53"
      and "mine = newest_first (owned_by (auth_id req) (docs db))"
      and "items = take (nat \<lfloor>l\<rfloor>) (drop (nat \<lfloor>(p - 1) * l\<rfloor>) mine)"
  shows "getPredictionHistory e db req =
           (\<lparr>code = 200, status = ''success'', message = None,
             data = Some (HistoryData items
                      \<lparr>pg_total = num_of_int (int (length mine)), pg_page = Fin p,
                       pg_limit = Fin l,
                       pg_pages = js_ceil_div (roundDouble e) (num_of_int (int (length mine)))
                                    (Fin l)\<rparr>)\<rparr>, db)
         \<and> (length mine < 2 ^ 53 \<longrightarrow>
              num_of_int (int (length mine)) = Fin (real (length mine))
              \<and> js_ceil_div (roundDouble e) (num_of_int (int (length mine))) (Fin l)
                  = Fin (of_int \<lceil>real (length mine) / l\<rceil>))
         \<and> set mine = {d \<in> set (docs db). user d = auth_id req}
         \<and> length mine = length (filter (\<lambda>d. user d = auth_id req) (docs db))
         \<and> sorted_wrt (\<lambda>a b. createdAt b \<le> createdAt a) mine
         \<and> real (length items) \<le> l
         \<and> list_all (\<lambda>d. user d = auth_id req) items
         \<and> sorted_wrt (\<lambda>a b. createdAt b \<le> createdAt a) items"
proof -
  have wp: "whole p"
    using assms(3) parseInt_or_whole [of "query_page req" 1 p]
    by (simp add: page_of_def whole_Ints)
  have wl: "whole l"
    using assms(4) parseInt_or_whole [of "query_limit req" 10 l]
    by (simp add: limit_of_def whole_Ints)
  have lp: "l \<le> p * l" and pl: "p \<le> p * l"
    using assms(5,6) by (simp_all add: mult_le_cancel_right1 mult_le_cancel_left1)
  have sk: "(p - 1) * l \<le> p * l"
    using assms(6) by (simp add: mult_right_mono)
  have l53: "l \<le> 2 ^ 53" and p53: "p \<le> 2 ^ 53" and s53: "(p - 1) * l \<le> 2 ^ 53"
    using lp pl sk assms(7) by linarith+
  have s0: "0 \<le> (p - 1) * l"
    using assms(5,6) by simp
  have w1: "whole (p - 1)"
    using wp by (simp add: whole_Ints)
  have ws: "whole ((p - 1) * l)"
    using w1 wl by (simp add: whole_Ints)
  have sub: "js_round (roundDouble e) (p - 1) = Fin (p - 1)"
    using w1 p53 assms(5) by (simp add: js_round_def)
  have mul: "js_round (roundDouble e) ((p - 1) * l) = Fin ((p - 1) * l)"
    using ws s53 s0 by (simp add: js_round_def)
  have skip: "skip_of e req = Fin ((p - 1) * l)"
    by (simp add: skip_of_def assms(3,4) sub mul)
  have cs: "as_count (Fin ((p - 1) * l)) = Some (nat \<lfloor>(p - 1) * l\<rfloor>)"
    using as_count_whole [OF ws s0 s53] .
  have cl: "as_count (Fin l) = Some (nat \<lfloor>l\<rfloor>)"
    using as_count_whole [OF wl _ l53] assms(6) by simp
  have lpos: "0 < nat \<lfloor>l\<rfloor>"
    using assms(6) by simp
  have resp: "getPredictionHistory e db req =
           (\<lparr>code = 200, status = ''success'', message = None,
             data = Some (HistoryData items
                      \<lparr>pg_total = num_of_int (int (length mine)), pg_page = Fin p,
                       pg_limit = Fin l,
                       pg_pages = js_ceil_div (roundDouble e) (num_of_int (int (length mine)))
                                    (Fin l)\<rparr>)\<rparr>, db)"
    using assms(1,2) lpos unfolding assms(8,9)
    by (simp add: getPredictionHistory_def Let_def assms(3,4) skip find_sort_skip_limit_def
          cs cl countDocuments_def length_newest_first)
  have exact: "length mine < 2 ^ 53 \<longrightarrow>
              num_of_int (int (length mine)) = Fin (real (length mine))
              \<and> js_ceil_div (roundDouble e) (num_of_int (int (length mine))) (Fin l)
                  = Fin (of_int \<lceil>real (length mine) / l\<rceil>)"
  proof
    assume n: "length mine < 2 ^ 53"
    have lz: "l \<noteq> 0" using assms(6) by simp
    show "num_of_int (int (length mine)) = Fin (real (length mine))
              \<and> js_ceil_div (roundDouble e) (num_of_int (int (length mine))) (Fin l)
                  = Fin (of_int \<lceil>real (length mine) / l\<rceil>)"
      by (simp add: count_exact [OF n] ceil_div_exact [OF wl lz n])
  qed
  have s: "set mine = {d \<in> set (docs db). user d = auth_id req}"
    by (auto simp: assms(8) set_newest_first owned_by_def)
  have n: "length mine = length (filter (\<lambda>d. user d = auth_id req) (docs db))"
    by (simp add: assms(8) length_newest_first owned_by_def)
  have so: "sorted_wrt (\<lambda>a b. createdAt b \<le> createdAt a) mine"
    by (simp add: assms(8) sorted_newest_first)
  have "length items \<le> nat \<lfloor>l\<rfloor>"
    by (simp add: assms(9))
  then have "real (length items) \<le> real (nat \<lfloor>l\<rfloor>)"
    by simp
  also have "\<dots> \<le> l"
    using assms(6) by simp
  finally have len: "real (length items) \<le> l" .
  have own: "list_all (\<lambda>d. user d = auth_id req) items"
    by (simp add: assms(8,9) owned_page)
  have si: "sorted_wrt (\<lambda>a b. createdAt b \<le> createdAt a) items"
    by (simp add: assms(8,9) sorted_page)
  show ?thesis
    by (intro conjI resp exact s n so len own si)
qed

lemma mine_two_user:
  "newest_first (owned_by (auth_id page2_request) (docs two_user_db)) = [alice_doc2, alice_doc]"
  by (simp add: newest_first_def owned_by_def page2_request_def two_user_db_def alice_doc_def
        bob_doc_def alice_doc2_def)

theorem history_page_witness:
  "readyState two_user_db = 1 \<and> fault two_user_db = None
   \<and> page_of page2_request = Fin 2
   \<and> limit_of page2_request = Fin 1
   \<and> [alice_doc2, alice_doc]
       = newest_first (owned_by (auth_id page2_request) (docs two_user_db))
   \<and> [alice_doc] = take (nat \<lfloor>1 :: real\<rfloor>) (drop (nat \<lfloor>(2 - 1) * 1 :: real\<rfloor>)
                       [alice_doc2, alice_doc])
   \<and> getPredictionHistory sample_env two_user_db page2_request =
       (\<lparr>code = 200, status = ''success'', message = None,
         data = Some (HistoryData [alice_doc]
                  \<lparr>pg_total = Fin 2, pg_page = Fin 2, pg_limit = Fin 1,
                   pg_pages = Fin 2\<rparr>)\<rparr>, two_user_db)"
proof -
  have r: "readyState two_user_db = 1" and f: "fault two_user_db = None"
    by (simp_all add: two_user_db_def)
  have p: "page_of page2_request = Fin 2"
    and l: "limit_of page2_request = Fin 1"
    by (simp_all add: page_of_def limit_of_def parseInt_or_def page2_request_def parseInt_1
          parseInt_2 js_or_def)
  have m: "[alice_doc2, alice_doc]
             = newest_first (owned_by (auth_id page2_request) (docs two_user_db))"
    by (simp add: mine_two_user)
  have i: "[alice_doc] = take (nat \<lfloor>1 :: real\<rfloor>) (drop (nat \<lfloor>(2 - 1) * 1 :: real\<rfloor>)
                            [alice_doc2, alice_doc])"
    by simp
  have p1: "(1::real) \<le> 2" and l1: "(1::real) \<le> 1" and b: "(2::real) * 1 \<le> 2 ^ 53"
    by simp_all
  note h = history_page [OF r f p l p1 l1 b m i, of sample_env]
  have less: "length [alice_doc2, alice_doc] < 2 ^ 53" by simp
  from h have ex: "length [alice_doc2, alice_doc] < 2 ^ 53 \<longrightarrow>
      num_of_int (int (length [alice_doc2, alice_doc]))
        = Fin (real (length [alice_doc2, alice_doc]))
      \<and> js_ceil_div (roundDouble sample_env)
            (num_of_int (int (length [alice_doc2, alice_doc]))) (Fin 1)
          = Fin (of_int \<lceil>real (length [alice_doc2, alice_doc]) / 1\<rceil>)"
    by (elim conjE)
  note tc = ex [THEN mp, OF less]
  have t: "num_of_int (int (length [alice_doc2, alice_doc])) = Fin 2"
    using tc [THEN conjunct1] by simp
  have c: "js_ceil_div (roundDouble sample_env) (Fin 2) (Fin 1) = Fin 2"
    using tc [THEN conjunct2] unfolding t by simp
  have "getPredictionHistory sample_env two_user_db page2_request =
       (\<lparr>code = 200, status = ''success'', message = None,
         data = Some (HistoryData [alice_doc]
                  \<lparr>pg_total = num_of_int (int (length [alice_doc2, alice_doc])),
                   pg_page = Fin 2, pg_limit = Fin 1,
                   pg_pages = js_ceil_div (roundDouble sample_env)
                                (num_of_int (int (length [alice_doc2, alice_doc])))
                                (Fin 1)\<rparr>)\<rparr>, two_user_db)"
    using h by (rule conjunct1)
  then have g: "getPredictionHistory sample_env two_user_db page2_request =
       (\<lparr>code = 200, status = ''success'', message = None,
         data = Some (HistoryData [alice_doc]
                  \<lparr>pg_total = Fin 2, pg_page = Fin 2, pg_limit = Fin 1,
                   pg_pages = Fin 2\<rparr>)\<rparr>, two_user_db)"
    unfolding t c .
  show ?thesis
    by (intro conjI r f p l m i g)
qed

section \<open>Page and limit parameters\<close>

lemma parseInt_zero: "parseInt ''0'' = Fin 0"
  by code_simp

lemma parseInt_abc: "parseInt ''abc'' = NaN"
  by code_simp

lemma parseInt_or_nonzero: "d \<noteq> 0 \<Longrightarrow> parseInt_or q (Fin d) \<noteq> Fin 0"
  by (simp add: parseInt_or_def js_or_def)

lemma parseInt_or_number: "parseInt_or q (Fin d) \<noteq> NaN"
  by (simp add: parseInt_or_def js_or_def)

text \<open>
  Claim C10. In \<^verbatim>\<open>getPredictionHistory\<close> a page parameter that is absent, does not parse
  (\<^verbatim>\<open>NaN\<close>) or parses to 0 is replaced by 1, and such a limit parameter by 10. The limit
  is therefore never 0 (nor \<^verbatim>\<open>NaN\<close>), and whenever the real path reports a pagination it
  reports this page and this non-zero limit, with \<open>pages\<close> computed as
  \<^verbatim>\<open>Math.ceil(total / limit)\<close>.
\<close>

theorem page_limit_defaults:
  "((query_page req = None
       \<or> (\<exists>s. query_page req = Some s \<and> (parseInt s = NaN \<or> parseInt s = Fin 0)))
      \<longrightarrow> page_of req = Fin 1)
   \<and> ((query_limit req = None
       \<or> (\<exists>s. query_limit req = Some s \<and> (parseInt s = NaN \<or> parseInt s = Fin 0)))
      \<longrightarrow> limit_of req = Fin 10)
   \<and> limit_of req \<noteq> Fin 0
   \<and> limit_of req \<noteq> NaN
   \<and> (readyState db = 1
        \<and> history_pagination (fst (getPredictionHistory e db req)) = Some pg \<longrightarrow>
          pg_page pg = page_of req
        \<and> pg_limit pg = limit_of req
        \<and> pg_limit pg \<noteq> Fin 0
        \<and> pg_pages pg = js_ceil_div (roundDouble e) (pg_total pg) (pg_limit pg))"
proof (intro conjI impI)
  assume "query_page req = None
       \<or> (\<exists>s. query_page req = Some s \<and> (parseInt s = NaN \<or> parseInt s = Fin 0))"
  then show "page_of req = Fin 1"
    by (auto simp: page_of_def parseInt_or_def js_or_def)
next
  assume "query_limit req = None
       \<or> (\<exists>s. query_limit req = Some s \<and> (parseInt s = NaN \<or> parseInt s = Fin 0))"
  then show "limit_of req = Fin 10"
    by (auto simp: limit_of_def parseInt_or_def js_or_def)
next
  show "limit_of req \<noteq> Fin 0"
    by (simp add: limit_of_def parseInt_or_nonzero)
next
  show "limit_of req \<noteq> NaN"
    by (simp add: limit_of_def parseInt_or_number)
next
  assume h: "readyState db = 1
        \<and> history_pagination (fst (getPredictionHistory e db req)) = Some pg"
  have nz: "limit_of req \<noteq> Fin 0"
    by (simp add: limit_of_def parseInt_or_nonzero)
  from h have pg: "pg_page pg = page_of req
        \<and> pg_limit pg = limit_of req
        \<and> pg_pages pg = js_ceil_div (roundDouble e) (pg_total pg) (pg_limit pg)"
    by (auto simp: getPredictionHistory_def Let_def history_pagination_def error_response_def
          split: sum.splits)
  then show "pg_page pg = page_of req" by simp
  from pg show "pg_limit pg = limit_of req" by simp
  from pg nz show "pg_limit pg \<noteq> Fin 0" by simp
  from pg show "pg_pages pg = js_ceil_div (roundDouble e) (pg_total pg) (pg_limit pg)"
    by simp
qed

lemma ceiling_tenth: "\<lceil>1 / 10 :: real\<rceil> = 1"
  by (simp add: ceiling_eq_iff)

lemma history_live_sample:
  "getPredictionHistory sample_env live_db sample_request =
     (\<lparr>code = 200, status = ''success'', message = None,
       data = Some (HistoryData [alice_doc]
                \<lparr>pg_total = Fin 1, pg_page = Fin 1, pg_limit = Fin 10,
                 pg_pages = Fin 1\<rparr>)\<rparr>, live_db)"
proof -
  have p: "page_of sample_request = Fin 1" and l: "limit_of sample_request = Fin 10"
    by (simp_all add: page_of_def limit_of_def sample_request_def parseInt_or_def
          parseInt_zero parseInt_abc js_or_def)
  have s: "skip_of sample_env sample_request = Fin 0"
    by (simp add: skip_of_def p l js_round_def whole_def)
  have c0: "as_count (Fin 0) = Some 0" and c10: "as_count (Fin 10) = Some 10"
    by (simp_all add: as_count_def whole_def)
  have total: "num_of_int 1 = Fin 1"
    by (simp add: num_of_int_def)
  have pages: "js_ceil_div (roundDouble sample_env) (Fin 1) (Fin 10) = Fin 1"
    by (simp add: js_ceil_div_def whole_def ceiling_tenth)
  have a: "auth_id sample_request = ''alice''"
    by (simp add: sample_request_def)
  show ?thesis
    by (simp add: getPredictionHistory_def Let_def p l s a find_sort_skip_limit_def c0 c10
          live_db_def countDocuments_def owned_by_def newest_first_def alice_doc_def total
          pages)
qed

theorem page_limit_defaults_witness:
  "query_page sample_request = Some ''0'' \<and> parseInt ''0'' = Fin 0
   \<and> query_limit sample_request = Some ''abc'' \<and> parseInt ''abc'' = NaN
   \<and> query_page alice_request = None \<and> query_limit alice_request = None
   \<and> page_of sample_request = Fin 1
   \<and> limit_of sample_request = Fin 10
   \<and> page_of alice_request = Fin 1
   \<and> limit_of alice_request = Fin 10
   \<and> readyState live_db = 1
   \<and> history_pagination (fst (getPredictionHistory sample_env live_db sample_request))
       = Some \<lparr>pg_total = Fin 1, pg_page = Fin 1, pg_limit = Fin 10, pg_pages = Fin 1\<rparr>
   \<and> js_ceil_div (roundDouble sample_env) (Fin 1) (Fin 10) = Fin 1"
proof -
  have q: "query_page sample_request = Some ''0''" "query_limit sample_request = Some ''abc''"
    "query_page alice_request = None" "query_limit alice_request = None"
    by (simp_all add: sample_request_def alice_request_def)
  have r: "readyState live_db = 1" by (simp add: live_db_def)
  have p: "history_pagination (fst (getPredictionHistory sample_env live_db sample_request))
       = Some \<lparr>pg_total = Fin 1, pg_page = Fin 1, pg_limit = Fin 10, pg_pages = Fin 1\<rparr>"
    by (simp add: history_live_sample history_pagination_def)
  note d1 = page_limit_defaults [of sample_request live_db sample_env
        "\<lparr>pg_total = Fin 1, pg_page = Fin 1, pg_limit = Fin 10, pg_pages = Fin 1\<rparr>"]
  note d2 = page_limit_defaults [of alice_request live_db sample_env
        "\<lparr>pg_total = Fin 1, pg_page = Fin 1, pg_limit = Fin 10, pg_pages = Fin 1\<rparr>"]
  have h1: "query_page sample_request = None
       \<or> (\<exists>s. query_page sample_request = Some s
              \<and> (parseInt s = NaN \<or> parseInt s = Fin 0))"
    using q(1) parseInt_zero by simp
  have h2: "query_limit sample_request = None
       \<or> (\<exists>s. query_limit sample_request = Some s
              \<and> (parseInt s = NaN \<or> parseInt s = Fin 0))"
    using q(2) parseInt_abc by simp
  have h3: "query_page alice_request = None
       \<or> (\<exists>s. query_page alice_request = Some s
              \<and> (parseInt s = NaN \<or> parseInt s = Fin 0))"
    using q(3) by simp
  have h4: "query_limit alice_request = None
       \<or> (\<exists>s. query_limit alice_request = Some s
              \<and> (parseInt s = NaN \<or> parseInt s = Fin 0))"
    using q(4) by simp
  have ps: "page_of sample_request = Fin 1"
    using d1 [THEN conjunct1, THEN mp, OF h1] .
  have ls: "limit_of sample_request = Fin 10"
    using d1 [THEN conjunct2, THEN conjunct1, THEN mp, OF h2] .
  have pa: "page_of alice_request = Fin 1"
    using d2 [THEN conjunct1, THEN mp, OF h3] .
  have la: "limit_of alice_request = Fin 10"
    using d2 [THEN conjunct2, THEN conjunct1, THEN mp, OF h4] .
  have h5: "readyState live_db = 1
        \<and> history_pagination (fst (getPredictionHistory sample_env live_db sample_request))
            = Some \<lparr>pg_total = Fin 1, pg_page = Fin 1, pg_limit = Fin 10,
                    pg_pages = Fin 1\<rparr>"
    using r p by simp
  have pages: "js_ceil_div (roundDouble sample_env) (Fin 1) (Fin 10) = Fin 1"
    using d1 [THEN conjunct2, THEN conjunct2, THEN conjunct2, THEN conjunct2, THEN mp, OF h5,
              THEN conjunct2, THEN conjunct2, THEN conjunct2, symmetric]
    by simp
  show ?thesis
    by (intro conjI q parseInt_zero parseInt_abc ps ls pa la r p pages)
qed

end
